theory Spec2Isabelle
  imports Main "HOL-Library.Monad_Syntax" "HOL-Library.AList" "HOL-Library.Sublist"
begin

section \<open>JSON values and the Python operations the renderer applies to them\<close>

text \<open>
  The renderer (\<^verbatim>\<open>src/renderer/manim_renderer.py\<close>) keeps its whole state in the Python
  objects that \<^verbatim>\<open>json.load\<close> returns: nested dicts with string keys, lists, strings,
  integers, booleans and \<^verbatim>\<open>None\<close>. The model keeps that shape. A dict is an
  association list in insertion order (Python dicts are insertion ordered). Numbers are
  integers: floating point values are outside the model.

  A trace that comes out of \<^verbatim>\<open>json.load\<close> shares no object between two places, the
  renderer deep-copies the initial frame, and it reads every delta once. Within one replay
  of a freshly loaded trace an object is therefore reachable from one place of the state
  only, and the in-place mutation of the Python objects is modelled by value: the function
  returns the updated document. Some handlers store a part of an operation's parameters
  in the state without copying it, so a replay also changes the loaded trace object;
  the last section models that sharing with an explicit store.

  A Python exception is the result \<open>None\<close>. The same result is used at the few marked
  places where Python would go on with a value that is no JSON document of this shape
  (a dict key that is not a string, the textual form of a container).
\<close>

datatype json =
    JNull
  | JBool bool
  | JInt int
  | JStr string
  | JList "json list"
  | JDict "(string \<times> json) list"

text \<open>Truth value of an object (\<^verbatim>\<open>if x:\<close>, \<^verbatim>\<open>not x\<close>, \<^verbatim>\<open>x or y\<close>).\<close>

fun truthy :: "json \<Rightarrow> bool" where
  "truthy JNull = False"
| "truthy (JBool b) = b"
| "truthy (JInt i) = (i \<noteq> 0)"
| "truthy (JStr s) = (s \<noteq> [])"
| "truthy (JList xs) = (xs \<noteq> [])"
| "truthy (JDict d) = (d \<noteq> [])"

text \<open>
  The integer an object stands for in a comparison or as an index: \<^verbatim>\<open>bool\<close> is a
  subclass of \<^verbatim>\<open>int\<close>. Every other object makes \<^verbatim>\<open>0 <= x\<close> raise TypeError.
\<close>

fun as_int :: "json \<Rightarrow> int option" where
  "as_int (JInt i) = Some i"
| "as_int (JBool b) = Some (if b then 1 else 0)"
| "as_int _ = None"

text \<open>\<^verbatim>\<open>isinstance(x, int)\<close>\<close>

definition is_int :: "json \<Rightarrow> bool" where
  "is_int x = (as_int x \<noteq> None)"

text \<open>
  \<^verbatim>\<open>a == b\<close>: numbers compare by value (\<^verbatim>\<open>True == 1\<close>), lists elementwise, dicts
  by their key sets and the values under each key, whatever the insertion order.
\<close>

fun py_eq :: "json \<Rightarrow> json \<Rightarrow> bool"
  and py_eq_list :: "json list \<Rightarrow> json list \<Rightarrow> bool"
  and py_eq_items :: "(string \<times> json) list \<Rightarrow> (string \<times> json) list \<Rightarrow> bool" where
  "py_eq JNull b = (b = JNull)"
| "py_eq (JBool x) b = (as_int b = Some (if x then 1 else 0))"
| "py_eq (JInt i) b = (as_int b = Some i)"
| "py_eq (JStr s) b = (b = JStr s)"
| "py_eq (JList xs) b = (case b of JList ys \<Rightarrow> py_eq_list xs ys | _ \<Rightarrow> False)"
| "py_eq (JDict d) b =
     (case b of JDict e \<Rightarrow> length d = length e \<and> py_eq_items d e | _ \<Rightarrow> False)"
| "py_eq_list [] ys = (ys = [])"
| "py_eq_list (x # xs) ys =
     (case ys of [] \<Rightarrow> False | y # ys' \<Rightarrow> py_eq x y \<and> py_eq_list xs ys')"
| "py_eq_items [] e = True"
| "py_eq_items ((k, v) # d) e =
     ((case map_of e k of None \<Rightarrow> False | Some w \<Rightarrow> py_eq v w) \<and> py_eq_items d e)"

text \<open>Lists and dicts are unhashable: building a set of them or looking them up raises.\<close>

fun hashable :: "json \<Rightarrow> bool" where
  "hashable (JList xs) = False"
| "hashable (JDict d) = False"
| "hashable _ = True"

text \<open>\<^verbatim>\<open>d.get(k)\<close> and \<^verbatim>\<open>d.get(k, dflt)\<close>; AttributeError on anything but a dict.\<close>

definition py_get_default :: "json \<Rightarrow> string \<Rightarrow> json \<Rightarrow> json option" where
  "py_get_default d k dflt =
     (case d of
        JDict kv \<Rightarrow> Some (case map_of kv k of None \<Rightarrow> dflt | Some v \<Rightarrow> v)
      | _ \<Rightarrow> None)"

definition py_get :: "json \<Rightarrow> string \<Rightarrow> json option" where
  "py_get d k = py_get_default d k JNull"

text \<open>
  \<^verbatim>\<open>d.get(k, dflt)\<close> for a key that is any object: AttributeError on anything but a
  dict, TypeError for an unhashable key. The keys of a dict of the model are strings, so
  any other hashable key is absent.
\<close>

definition py_get_obj :: "json \<Rightarrow> json \<Rightarrow> json \<Rightarrow> json option" where
  "py_get_obj d k dflt =
     (case d of
        JDict kv \<Rightarrow>
          (if \<not> hashable k then None
           else Some (case k of
                        JStr n \<Rightarrow> (case map_of kv n of None \<Rightarrow> dflt | Some v \<Rightarrow> v)
                      | _ \<Rightarrow> dflt))
      | _ \<Rightarrow> None)"

text \<open>\<^verbatim>\<open>d.get(k, dflt)\<close> on the entries of an object that is known to be a dict.\<close>

definition dict_get :: "(string \<times> json) list \<Rightarrow> string \<Rightarrow> json \<Rightarrow> json" where
  "dict_get kv k dflt = (case map_of kv k of None \<Rightarrow> dflt | Some v \<Rightarrow> v)"

text \<open>\<^verbatim>\<open>d[k]\<close> with a string key: KeyError when absent, TypeError on a non-dict.\<close>

definition py_getitem :: "json \<Rightarrow> string \<Rightarrow> json option" where
  "py_getitem d k = (case d of JDict kv \<Rightarrow> map_of kv k | _ \<Rightarrow> None)"

text \<open>\<^verbatim>\<open>d[k] = v\<close> with a string key: an existing key keeps its place, a new one goes last.\<close>

definition py_setitem :: "json \<Rightarrow> string \<Rightarrow> json \<Rightarrow> json option" where
  "py_setitem d k v = (case d of JDict kv \<Rightarrow> Some (JDict (AList.update k v kv)) | _ \<Rightarrow> None)"

text \<open>\<^verbatim>\<open>k in d\<close> for a string literal \<open>k\<close> and a dict \<open>d\<close>.\<close>

definition py_has_key :: "json \<Rightarrow> string \<Rightarrow> bool option" where
  "py_has_key d k = (case d of JDict kv \<Rightarrow> Some (map_of kv k \<noteq> None) | _ \<Rightarrow> None)"

text \<open>
  \<^verbatim>\<open>for x in obj\<close>: the elements of a list, the characters of a string, the keys of a
  dict; TypeError otherwise.
\<close>

definition py_iter :: "json \<Rightarrow> json list option" where
  "py_iter obj =
     (case obj of
        JList xs \<Rightarrow> Some xs
      | JStr s \<Rightarrow> Some (map (\<lambda>c. JStr [c]) s)
      | JDict kv \<Rightarrow> Some (map (\<lambda>p. JStr (fst p)) kv)
      | _ \<Rightarrow> None)"

text \<open>\<^verbatim>\<open>len(obj)\<close>\<close>

definition py_len :: "json \<Rightarrow> nat option" where
  "py_len obj =
     (case obj of
        JList xs \<Rightarrow> Some (length xs)
      | JStr s \<Rightarrow> Some (length s)
      | JDict kv \<Rightarrow> Some (length kv)
      | _ \<Rightarrow> None)"

text \<open>
  \<^verbatim>\<open>0 <= i < n\<close>: TypeError unless \<open>i\<close> is a number.
\<close>

definition in_range :: "json \<Rightarrow> nat \<Rightarrow> bool option" where
  "in_range i n = (case as_int i of None \<Rightarrow> None | Some k \<Rightarrow> Some (0 \<le> k \<and> k < int n))"

text \<open>
  \<^verbatim>\<open>x in xs\<close> for a list \<open>xs\<close>: some element \<open>y\<close> has \<^verbatim>\<open>y == x\<close>, the same
  comparison that \<^verbatim>\<open>xs.remove(x)\<close> makes.
\<close>

definition py_in_list :: "json \<Rightarrow> json list \<Rightarrow> bool" where
  "py_in_list x xs = list_ex (\<lambda>y. py_eq y x) xs"

text \<open>
  \<^verbatim>\<open>x in c\<close> for any container: list membership, substring of a string (TypeError
  unless \<open>x\<close> is a string), key of a dict (TypeError when \<open>x\<close> is unhashable).
\<close>

definition py_contains :: "json \<Rightarrow> json \<Rightarrow> bool option" where
  "py_contains c x =
     (case c of
        JList xs \<Rightarrow> Some (py_in_list x xs)
      | JStr s \<Rightarrow> (case x of JStr t \<Rightarrow> Some (sublist t s) | _ \<Rightarrow> None)
      | JDict kv \<Rightarrow>
          (if hashable x
           then Some (case x of JStr k \<Rightarrow> map_of kv k \<noteq> None | _ \<Rightarrow> False)
           else None)
      | _ \<Rightarrow> None)"

text \<open>
  \<^verbatim>\<open>x in {f(n) for n in ns}\<close> where \<open>ks\<close> are the values \<open>f(n)\<close>: every key and
  \<open>x\<close> itself must be hashable.
\<close>

definition py_in_set :: "json \<Rightarrow> json list \<Rightarrow> bool option" where
  "py_in_set x ks =
     (if list_all hashable ks \<and> hashable x then Some (py_in_list x ks) else None)"

text \<open>\<^verbatim>\<open>xs.remove(x)\<close>: drops the first element equal to \<open>x\<close>; ValueError when there is none.\<close>

fun py_list_remove :: "json \<Rightarrow> json list \<Rightarrow> json list option" where
  "py_list_remove x [] = None"
| "py_list_remove x (y # ys) =
     (if py_eq y x then Some ys else map_option ((#) y) (py_list_remove x ys))"

text \<open>
  \<^verbatim>\<open>x = d.get(k, dflt)\<close> followed by in-place changes \<open>f\<close> of \<open>x\<close>. When the key is
  absent, \<open>x\<close> is a fresh default that nothing refers to: its changes are lost, its
  exceptions are not.
\<close>

definition py_modify_default ::
  "json \<Rightarrow> string \<Rightarrow> json \<Rightarrow> (json \<Rightarrow> json option) \<Rightarrow> json option" where
  "py_modify_default d k dflt f =
     (case d of
        JDict kv \<Rightarrow>
          (case map_of kv k of
             None \<Rightarrow> (case f dflt of None \<Rightarrow> None | Some _ \<Rightarrow> Some d)
           | Some v \<Rightarrow> (case f v of None \<Rightarrow> None | Some v' \<Rightarrow> Some (JDict (AList.update k v' kv))))
      | _ \<Rightarrow> None)"

text \<open>
  \<^verbatim>\<open>x = d.setdefault(k, dflt)\<close> followed by in-place changes \<open>f\<close> of \<open>x\<close>: an absent
  key is first bound to the default.
\<close>

definition py_modify_setdefault ::
  "json \<Rightarrow> string \<Rightarrow> json \<Rightarrow> (json \<Rightarrow> json option) \<Rightarrow> json option" where
  "py_modify_setdefault d k dflt f =
     (case d of
        JDict kv \<Rightarrow>
          (case f (case map_of kv k of None \<Rightarrow> dflt | Some v \<Rightarrow> v) of
             None \<Rightarrow> None
           | Some v' \<Rightarrow> Some (JDict (AList.update k v' kv)))
      | _ \<Rightarrow> None)"

text \<open>A \<^verbatim>\<open>for\<close> loop without \<^verbatim>\<open>break\<close> whose body may raise.\<close>

fun py_for :: "'a list \<Rightarrow> ('a \<Rightarrow> 's \<Rightarrow> 's option) \<Rightarrow> 's \<Rightarrow> 's option" where
  "py_for [] body s = Some s"
| "py_for (x # xs) body s = (case body x s of None \<Rightarrow> None | Some s' \<Rightarrow> py_for xs body s')"

text \<open>
  \<^verbatim>\<open>for x in xs: <change x in place>\<close>: each element is replaced by its changed value.
\<close>

fun py_for_each :: "(json \<Rightarrow> json option) \<Rightarrow> json list \<Rightarrow> json list option" where
  "py_for_each f [] = Some []"
| "py_for_each f (x # xs) =
     (case f x of
        None \<Rightarrow> None
      | Some x' \<Rightarrow> (case py_for_each f xs of None \<Rightarrow> None | Some xs' \<Rightarrow> Some (x' # xs')))"

text \<open>
  The same loop over any object. The elements of a string or of a dict (its keys) are
  fresh strings: changes to them are lost, exceptions are not.
\<close>

definition py_for_each_in :: "(json \<Rightarrow> json option) \<Rightarrow> json \<Rightarrow> json option" where
  "py_for_each_in f obj =
     (case obj of
        JList xs \<Rightarrow> map_option JList (py_for_each f xs)
      | _ \<Rightarrow> (case py_iter obj of
                None \<Rightarrow> None
              | Some xs \<Rightarrow> (case py_for_each f xs of None \<Rightarrow> None | Some _ \<Rightarrow> Some obj)))"

text \<open>
  A list comprehension \<^verbatim>\<open>[x for x in xs if keep(x)]\<close> whose test may raise.
\<close>

fun py_filter :: "(json \<Rightarrow> bool option) \<Rightarrow> json list \<Rightarrow> json list option" where
  "py_filter keep [] = Some []"
| "py_filter keep (x # xs) =
     (case keep x of
        None \<Rightarrow> None
      | Some b \<Rightarrow>
          (case py_filter keep xs of
             None \<Rightarrow> None
           | Some ys \<Rightarrow> Some (if b then x # ys else ys)))"

section \<open>The renderer's state\<close>

text \<open>
  The attributes of \<^verbatim>\<open>SVLManimRenderer\<close> that the delta replay reads or writes.
  \<open>styles\<close> is \<^verbatim>\<open>initial_frame["styles"]\<close>, which the replay only reads.
  \<open>skip_smooth_transition\<close> and \<open>array_mobjects_len\<close> (\<^verbatim>\<open>len(self.array_mobjects)\<close>)
  belong to the drawing side. The Manim objects themselves are not modelled: the drawing of
  a frame and the code of a handler that acts on the objects that are drawn are taken to
  complete. The code that a handler runs on its parameters and on the documents whatever
  is drawn is modelled with its exceptions.
\<close>

record rstate =
  data_type :: json
  fast_mode :: bool
  styles :: json
  current_data_state :: json
  current_aux_views :: "json list"
  current_variables :: "(string \<times> json) list"
  temp_elements :: "json list"
  dependencies :: "json list"
  current_comment_text :: json
  skip_smooth_transition :: bool
  array_mobjects_len :: nat

section \<open>Array operations\<close>

text \<open>
  \<^verbatim>\<open>_get_array_list_ref\<close>: the list under \<^verbatim>\<open>data\<close> if that is a list, else the list
  under \<^verbatim>\<open>structure\<close>, together with the key it was found under; \<^verbatim>\<open>(None, None)\<close>
  otherwise. \<^verbatim>\<open>self.data_type != "array"\<close> holds for every object but the string
  \<^verbatim>\<open>"array"\<close>.
\<close>

definition get_array_list_ref :: "rstate \<Rightarrow> (json list \<times> string) option option" where
  "get_array_list_ref s =
     (if data_type s \<noteq> JStr ''array'' then Some None
      else do {
        d \<leftarrow> py_get (current_data_state s) ''data'';
        (case d of
           JList xs \<Rightarrow> Some (Some (xs, ''data''))
         | _ \<Rightarrow>
             do {
               st \<leftarrow> py_get (current_data_state s) ''structure'';
               (case st of
                  JList xs \<Rightarrow> Some (Some (xs, ''structure''))
                | _ \<Rightarrow> Some None)
             })
      })"

text \<open>\<^verbatim>\<open>_get_array_list\<close>, which the drawing side reads: the same list, or \<^verbatim>\<open>[]\<close>.\<close>

definition get_array_list :: "rstate \<Rightarrow> json list option" where
  "get_array_list s =
     (case get_array_list_ref s of
        None \<Rightarrow> None
      | Some None \<Rightarrow> Some []
      | Some (Some (xs, key)) \<Rightarrow> Some xs)"

text \<open>
  \<^verbatim>\<open>repr(x)\<close> of a document. A string is quoted with \<^verbatim>\<open>'\<close>, or with \<^verbatim>\<open>"\<close> when
  it holds a \<^verbatim>\<open>'\<close> and no \<^verbatim>\<open>"\<close>; the quote and the backslash are escaped, tab,
  newline and carriage return are written \<^verbatim>\<open>\t\<close>, \<^verbatim>\<open>\n\<close>, \<^verbatim>\<open>\r\<close>, and every other
  character that is not printable is written \<^verbatim>\<open>\xNN\<close>. The characters of the model are
  the code points below 256; of these the printable ones are 32 to 126 and 161 to 255
  without 173.
\<close>

definition digit_char :: "nat \<Rightarrow> char" where
  "digit_char n = ''0123456789abcdef'' ! (n mod 16)"

fun py_digits :: "nat \<Rightarrow> string" where
  "py_digits n =
     (if n < 10 then [digit_char n] else py_digits (n div 10) @ [digit_char (n mod 10)])"

declare py_digits.simps [simp del]

definition py_printable :: "char \<Rightarrow> bool" where
  "py_printable c =
     (let n = (of_char c :: nat) in (32 \<le> n \<and> n < 127) \<or> (161 \<le> n \<and> n \<noteq> 173))"

definition py_repr_char :: "char \<Rightarrow> char \<Rightarrow> string" where
  "py_repr_char quote c =
     (if c = quote \<or> c = CHR 0x5C then [CHR 0x5C, c]
      else if c = CHR 0x09 then [CHR 0x5C, CHR ''t'']
      else if c = CHR 0x0A then [CHR 0x5C, CHR ''n'']
      else if c = CHR 0x0D then [CHR 0x5C, CHR ''r'']
      else if py_printable c then [c]
      else [CHR 0x5C, CHR ''x'', digit_char (of_char c div 16), digit_char (of_char c mod 16)])"

definition py_repr_str :: "string \<Rightarrow> string" where
  "py_repr_str t =
     (let quote = (if CHR 0x27 \<in> set t \<and> CHR 0x22 \<notin> set t then CHR 0x22 else CHR 0x27)
      in quote # concat (map (py_repr_char quote) t) @ [quote])"

fun py_repr :: "json \<Rightarrow> string"
  and py_repr_elems :: "json list \<Rightarrow> string"
  and py_repr_items :: "(string \<times> json) list \<Rightarrow> string" where
  "py_repr JNull = ''None''"
| "py_repr (JBool b) = (if b then ''True'' else ''False'')"
| "py_repr (JInt i) = (if i < 0 then CHR ''-'' # py_digits (nat (- i)) else py_digits (nat i))"
| "py_repr (JStr t) = py_repr_str t"
| "py_repr (JList xs) = ''['' @ py_repr_elems xs @ '']''"
| "py_repr (JDict kv) = ''{'' @ py_repr_items kv @ ''}''"
| "py_repr_elems [] = []"
| "py_repr_elems (x # xs) = py_repr x @ (if xs = [] then [] else '', '' @ py_repr_elems xs)"
| "py_repr_items [] = []"
| "py_repr_items ((k, v) # kv) =
     py_repr_str k @ '': '' @ py_repr v @ (if kv = [] then [] else '', '' @ py_repr_items kv)"

text \<open>\<^verbatim>\<open>str(x)\<close>: a string is its own text, every other document its \<^verbatim>\<open>repr\<close>.\<close>

definition py_str :: "json \<Rightarrow> string" where
  "py_str x = (case x of JStr t \<Rightarrow> t | _ \<Rightarrow> py_repr x)"

text \<open>
  \<^verbatim>\<open>"compare" in str(style_key or "").lower()\<close>. \<open>ascii_lower\<close> lowers the letters
  \<^verbatim>\<open>A\<close> to \<^verbatim>\<open>Z\<close> only; \<^verbatim>\<open>lower()\<close> turns no other character of the model into
  a letter of \<^verbatim>\<open>compare\<close>.
\<close>

definition ascii_lower :: "char \<Rightarrow> char" where
  "ascii_lower c =
     (case map_of (zip ''ABCDEFGHIJKLMNOPQRSTUVWXYZ'' ''abcdefghijklmnopqrstuvwxyz'') c of
        None \<Rightarrow> c
      | Some l \<Rightarrow> l)"

definition style_mentions_compare :: "json \<Rightarrow> bool" where
  "style_mentions_compare style_key =
     sublist ''compare''
       (map ascii_lower (py_str (if truthy style_key then style_key else JStr [])))"

text \<open>
  Whether \<^verbatim>\<open>_get_element_style(style_key)\<close> returns. It looks the key up under
  \<^verbatim>\<open>elementStyles\<close> and, when that gives nothing, in the styles themselves, and then
  calls \<^verbatim>\<open>style.get\<close>; \<^verbatim>\<open>_parse_color\<close> returns for every argument. The colours go
  to Manim only.
\<close>

definition get_element_style :: "json \<Rightarrow> json \<Rightarrow> unit option" where
  "get_element_style sty style_key =
     do {
       element_styles \<leftarrow> py_get_default sty ''elementStyles'' (JDict []);
       style0 \<leftarrow> py_get_obj element_styles style_key (JDict []);
       style \<leftarrow> (if truthy style0 then Some style0 else py_get_obj sty style_key (JDict []));
       fill \<leftarrow> py_get style ''fill'';
       Some ()
     }"

text \<open>One round of the first loop of \<^verbatim>\<open>_animate_update_style\<close>.\<close>

definition set_cell_state :: "json \<Rightarrow> json \<Rightarrow> json list \<Rightarrow> json list option" where
  "set_cell_state style_key i arr =
     do {
       ok \<leftarrow> in_range i (length arr);
       (if ok then
          do {
            k \<leftarrow> as_int i;
            cell \<leftarrow> py_setitem (arr ! nat k) ''state'' style_key;
            Some (arr[nat k := cell])
          }
        else Some arr)
     }"

text \<open>
  The comparison pairs of \<^verbatim>\<open>_animate_update_style\<close>: all pairs \<open>x < y\<close> of the sorted
  distinct valid indices in lexicographic order, cut after six.
\<close>

fun all_pairs :: "int list \<Rightarrow> (int \<times> int) list" where
  "all_pairs [] = []"
| "all_pairs (x # xs) = map (\<lambda>y. (x, y)) xs @ all_pairs xs"

definition compare_pairs :: "json list \<Rightarrow> nat \<Rightarrow> json list" where
  "compare_pairs indices n =
     map (\<lambda>(x, y). JDict [(''a'', JInt x), (''b'', JInt y)])
       (take 6 (all_pairs (sort (remdups
          (map (\<lambda>i. the (as_int i))
             (filter (\<lambda>i. is_int i \<and> in_range i n = Some True) indices))))))"

text \<open>
  The search for an \<^verbatim>\<open>array_compare\<close> annotation of the same style key, which takes
  the new pairs. The result tells whether one was found (\<^verbatim>\<open>merged\<close>).
\<close>

fun merge_compare :: "json \<Rightarrow> json list \<Rightarrow> json list \<Rightarrow> (bool \<times> json list) option" where
  "merge_compare style_key pairs [] = Some (False, [])"
| "merge_compare style_key pairs (t # ts) =
     do {
       ty \<leftarrow> py_get t ''type'';
       hit \<leftarrow> (if py_eq ty (JStr ''array_compare'')
               then map_option (\<lambda>k. py_eq k style_key) (py_get t ''styleKey'')
               else Some False);
       (if hit then
          do {
            existing \<leftarrow> py_get_default t ''pairs'' (JList []);
            old \<leftarrow> (if truthy existing
                    then (case existing of JList l \<Rightarrow> Some l | _ \<Rightarrow> None)
                    else Some []);
            t' \<leftarrow> py_setitem t ''pairs'' (JList (old @ pairs));
            Some (True, t' # ts)
          }
        else
          do {
            r \<leftarrow> merge_compare style_key pairs ts;
            Some (fst r, t # snd r)
          })
     }"

text \<open>
  \<^verbatim>\<open>_animate_update_style\<close>: the state tag of every in-range index, then the comparison
  annotation. Outside fast mode the style of the key is looked up before the cells are
  animated; the animation changes no attribute of the state.
\<close>

definition animate_update_style :: "json \<Rightarrow> rstate \<Rightarrow> rstate option" where
  "animate_update_style params s =
     (if data_type s \<noteq> JStr ''array'' then Some s
      else do {
        r \<leftarrow> get_array_list_ref s;
        (case r of
           None \<Rightarrow> Some s
         | Some (arr, key) \<Rightarrow>
             (if arr = [] then Some s
              else do {
                style_key \<leftarrow> py_get params ''styleKey'';
                indices \<leftarrow> py_get_default params ''indices'' (JList []);
                idxs \<leftarrow> py_iter indices;
                arr' \<leftarrow> py_for idxs (set_cell_state style_key) arr;
                ds \<leftarrow> py_setitem (current_data_state s) key (JList arr');
                temps \<leftarrow>
                  (let pairs = compare_pairs idxs (length arr') in
                   if style_mentions_compare style_key
                        \<and> (case indices of JList l \<Rightarrow> 2 \<le> length l | _ \<Rightarrow> False)
                        \<and> pairs \<noteq> []
                   then do {
                     m \<leftarrow> merge_compare style_key pairs (temp_elements s);
                     Some (if fst m then snd m
                           else temp_elements s @
                                  [JDict [(''type'', JStr ''array_compare''),
                                          (''pairs'', JList pairs),
                                          (''styleKey'', style_key)]])
                   }
                   else Some (temp_elements s));
                drawn \<leftarrow> (if fast_mode s then Some ()
                          else get_element_style (styles s) style_key);
                Some (s\<lparr>current_data_state := ds, temp_elements := temps\<rparr>)
              }))
      })"

text \<open>
  The first loop of \<^verbatim>\<open>_animate_move_elements\<close>: the pairs that are applied, in order.
  \<open>undirected\<close> holds the unordered pairs seen so far.
\<close>

fun collect_valid_pairs ::
  "nat \<Rightarrow> json list \<Rightarrow> (int \<times> int) list \<Rightarrow> (json \<times> json) list option" where
  "collect_valid_pairs n [] undirected = Some []"
| "collect_valid_pairs n (p # ps) undirected =
     do {
       src \<leftarrow> py_get p ''fromIndex'';
       dst \<leftarrow> py_get p ''toIndex'';
       (if src = JNull \<or> dst = JNull \<or> py_eq src dst then collect_valid_pairs n ps undirected
        else do {
          a \<leftarrow> in_range src n;
          b \<leftarrow> (if a then in_range dst n else Some False);
          (if b then
             do {
               i \<leftarrow> as_int src;
               j \<leftarrow> as_int dst;
               (if (min i j, max i j) \<in> set undirected then collect_valid_pairs n ps undirected
                else map_option ((#) (src, dst))
                       (collect_valid_pairs n ps ((min i j, max i j) # undirected)))
             }
           else collect_valid_pairs n ps undirected)
        })
     }"

text \<open>
  One swap of the second loop: \<^verbatim>\<open>arr[src], arr[dst] = arr[dst], arr[src]\<close>, then the
  \<^verbatim>\<open>index\<close> fields of the two cells are set to their new positions.
\<close>

definition swap_cells :: "json \<times> json \<Rightarrow> json list \<Rightarrow> json list option" where
  "swap_cells p arr =
     do {
       i \<leftarrow> as_int (fst p);
       j \<leftarrow> as_int (snd p);
       (if 0 \<le> i \<and> i < int (length arr) \<and> 0 \<le> j \<and> j < int (length arr) then
          do {
            let arr1 = arr[nat i := arr ! nat j, nat j := arr ! nat i];
            ci \<leftarrow> py_setitem (arr1 ! nat i) ''index'' (fst p);
            let arr2 = arr1[nat i := ci];
            cj \<leftarrow> py_setitem (arr2 ! nat j) ''index'' (snd p);
            Some (arr2[nat j := cj])
          }
        else None)
     }"

text \<open>\<^verbatim>\<open>min(a, b)\<close> and \<^verbatim>\<open>max(a, b)\<close> of two numbers: the first one on a tie.\<close>

definition py_min :: "json \<Rightarrow> json \<Rightarrow> json" where
  "py_min a b = (if the (as_int b) < the (as_int a) then b else a)"

definition py_max :: "json \<Rightarrow> json \<Rightarrow> json" where
  "py_max a b = (if the (as_int b) > the (as_int a) then b else a)"

text \<open>
  The annotation that \<^verbatim>\<open>_animate_move_elements\<close> records when the operation has the
  animation key \<^verbatim>\<open>swap\<close>. It lists the pairs in the order in which Python iterates
  over the set of them: \<open>set_order\<close> maps the insertion sequence of a set to its
  iteration sequence.
\<close>

definition swap_arrows_annotation ::
  "((json \<times> json) list \<Rightarrow> (json \<times> json) list) \<Rightarrow> json \<Rightarrow> json \<Rightarrow> (json \<times> json) list \<Rightarrow>
   json list \<Rightarrow> json list" where
  "swap_arrows_annotation set_order animation_key style_key valid_pairs temps =
     (let rec_pairs =
            map (\<lambda>(a, b). JDict [(''a'', py_min a b), (''b'', py_max a b)])
              (set_order (map (\<lambda>(a, b). (py_min a b, py_max a b)) valid_pairs))
      in if py_eq animation_key (JStr ''swap'') \<and> rec_pairs \<noteq> []
         then temps @ [JDict [(''type'', JStr ''swap_arrows''),
                              (''pairs'', JList rec_pairs),
                              (''styleKey'', style_key)]]
         else temps)"

text \<open>
  Whether the animation loop finds a pair whose two cells are drawn
  (\<^verbatim>\<open>src < len(self.array_mobjects) and dst < len(self.array_mobjects)\<close>).
\<close>

definition cells_animated :: "(json \<times> json) list \<Rightarrow> nat \<Rightarrow> bool" where
  "cells_animated valid_pairs n =
     list_ex (\<lambda>(a, b). the (as_int a) < int n \<and> the (as_int b) < int n) valid_pairs"

text \<open>
  \<^verbatim>\<open>_animate_move_elements\<close>: the valid pairs are swapped in order, the annotation is
  recorded, and \<^verbatim>\<open>skip_smooth_transition\<close> is set in fast mode or when a swap was
  animated. The animation loop acts on the cells that are drawn and belongs to the
  drawing side.
\<close>

definition animate_move_elements ::
  "((json \<times> json) list \<Rightarrow> (json \<times> json) list) \<Rightarrow> json \<Rightarrow> rstate \<Rightarrow> rstate option" where
  "animate_move_elements set_order params s =
     (if data_type s \<noteq> JStr ''array'' then Some s
      else do {
        pairs \<leftarrow> py_get_default params ''pairs'' (JList []);
        r \<leftarrow> get_array_list_ref s;
        (case r of
           None \<Rightarrow> Some s
         | Some (arr, key) \<Rightarrow>
             (if arr = [] then Some s
              else do {
                ps \<leftarrow> py_iter pairs;
                valid_pairs \<leftarrow> collect_valid_pairs (length arr) ps [];
                (if valid_pairs = [] then Some s
                 else do {
                   arr' \<leftarrow> py_for valid_pairs swap_cells arr;
                   ds \<leftarrow> py_setitem (current_data_state s) key (JList arr');
                   animation_key \<leftarrow> py_get params ''animationKey'';
                   style_key \<leftarrow> py_get_default params ''styleKey'' (JStr ''arrow'');
                   Some (s\<lparr>current_data_state := ds,
                            temp_elements :=
                              swap_arrows_annotation set_order animation_key style_key
                                valid_pairs (temp_elements s),
                            skip_smooth_transition :=
                              (if fast_mode s \<or> cells_animated valid_pairs (array_mobjects_len s)
                               then True
                               else skip_smooth_transition s)\<rparr>)
                 })
              }))
      })"

text \<open>
  \<^verbatim>\<open>_animate_shift_elements\<close>: the shifts become pairs, and the operation is handed to
  \<^verbatim>\<open>_animate_move_elements\<close> with \<^verbatim>\<open>{**params, "pairs": pairs}\<close>.
\<close>

definition shift_to_pair :: "json \<Rightarrow> json option" where
  "shift_to_pair sh =
     do {
       a \<leftarrow> py_get sh ''fromIndex'';
       b \<leftarrow> py_get sh ''toIndex'';
       Some (JDict [(''fromIndex'', a), (''toIndex'', b)])
     }"

definition animate_shift_elements ::
  "((json \<times> json) list \<Rightarrow> (json \<times> json) list) \<Rightarrow> json \<Rightarrow> rstate \<Rightarrow> rstate option" where
  "animate_shift_elements set_order params s =
     (if data_type s \<noteq> JStr ''array'' then Some s
      else do {
        shifts \<leftarrow> py_get_default params ''shifts'' (JList []);
        shs \<leftarrow> py_iter shifts;
        pairs \<leftarrow> py_for_each shift_to_pair shs;
        params' \<leftarrow> py_setitem params ''pairs'' (JList pairs);
        animate_move_elements set_order params' s
      })"

text \<open>One round of the update loop of \<^verbatim>\<open>_animate_update_values\<close>.\<close>

definition set_cell_value :: "json \<Rightarrow> json list \<Rightarrow> json list option" where
  "set_cell_value u arr =
     do {
       idx \<leftarrow> py_get u ''index'';
       val \<leftarrow> py_get u ''value'';
       (if idx = JNull then Some arr
        else do {
          ok \<leftarrow> in_range idx (length arr);
          (if ok then
             do {
               k \<leftarrow> as_int idx;
               cell \<leftarrow> py_setitem (arr ! nat k) ''value'' val;
               Some (arr[nat k := cell])
             }
           else Some arr)
        })
     }"

text \<open>
  \<^verbatim>\<open>{i: xs[i]["value"] for i in range(len(xs))}.get(k)\<close>: the dict is built only if
  every cell has a \<^verbatim>\<open>value\<close>; the lookup gives \<^verbatim>\<open>None\<close> outside the range.
\<close>

definition cell_values :: "json list \<Rightarrow> json list option" where
  "cell_values xs = py_for_each (\<lambda>c. py_getitem c ''value'') xs"

definition value_at :: "json list \<Rightarrow> json \<Rightarrow> json" where
  "value_at vals k =
     (case as_int k of
        None \<Rightarrow> JNull
      | Some i \<Rightarrow> if 0 \<le> i \<and> i < int (length vals) then vals ! nat i else JNull)"

text \<open>
  The pairs of updated indices whose values were exchanged
  (the nested loop over \<^verbatim>\<open>updated_indices\<close>).
\<close>

fun swapped_pairs :: "json list \<Rightarrow> json list \<Rightarrow> json list \<Rightarrow> (json \<times> json) list" where
  "swapped_pairs prev new [] = []"
| "swapped_pairs prev new (ui # rest) =
     map (\<lambda>uj. (py_min ui uj, py_max ui uj))
       (filter (\<lambda>uj. \<not> py_eq ui uj
                    \<and> py_eq (value_at new ui) (value_at prev uj)
                    \<and> py_eq (value_at new uj) (value_at prev ui)) rest)
     @ swapped_pairs prev new rest"

text \<open>
  \<^verbatim>\<open>list({(p["a"], p["b"]): p for p in pairs}.values())\<close>: one entry per distinct key, at
  the place of its first occurrence, holding its last occurrence.
\<close>

fun dedup_pairs :: "(json \<times> json) list \<Rightarrow> (json \<times> json) list \<Rightarrow> (json \<times> json) list" where
  "dedup_pairs acc [] = acc"
| "dedup_pairs acc (p # ps) =
     dedup_pairs
       (if list_ex (\<lambda>q. py_eq (fst q) (fst p) \<and> py_eq (snd q) (snd p)) acc
        then map (\<lambda>q. if py_eq (fst q) (fst p) \<and> py_eq (snd q) (snd p) then p else q) acc
        else acc @ [p])
       ps"

text \<open>
  The body of the \<^verbatim>\<open>try\<close> block up to the append to \<^verbatim>\<open>temp_elements\<close>: the
  annotation to append, if any. An exception before the append is swallowed by
  \<^verbatim>\<open>except Exception: pass\<close> and leaves nothing appended; the drawing calls after the
  append change no attribute of the state.
\<close>

definition swap_annotation :: "json list \<Rightarrow> json list \<Rightarrow> json list \<Rightarrow> json \<Rightarrow> json option" where
  "swap_annotation updated_indices snapshot arr style_key =
     (case cell_values snapshot of
        None \<Rightarrow> None
      | Some prev \<Rightarrow>
          (case cell_values arr of
             None \<Rightarrow> None
           | Some new \<Rightarrow>
               (let pairs = swapped_pairs prev new updated_indices in
                if pairs = [] then None
                else Some (JDict [(''type'', JStr ''swap_arrows''),
                                  (''pairs'',
                                   JList (map (\<lambda>(a, b). JDict [(''a'', a), (''b'', b)])
                                            (dedup_pairs [] pairs))),
                                  (''styleKey'', style_key)]))))"

text \<open>
  \<^verbatim>\<open>_animate_update_values\<close>. In fast mode the method returns before the
  \<^verbatim>\<open>array_change_flash\<close> annotation. The animation loop before that annotation acts
  on the cells that are drawn and belongs to the drawing side.
\<close>

definition animate_update_values :: "json \<Rightarrow> rstate \<Rightarrow> rstate option" where
  "animate_update_values params s =
     (if data_type s \<noteq> JStr ''array'' then Some s
      else do {
        r \<leftarrow> get_array_list_ref s;
        (case r of
           None \<Rightarrow> Some s
         | Some (arr, key) \<Rightarrow>
             (if arr = [] then Some s
              else do {
                updates \<leftarrow> py_get_default params ''updates'' (JList []);
                us \<leftarrow> py_iter updates;
                arr' \<leftarrow> py_for us set_cell_value arr;
                ds \<leftarrow> py_setitem (current_data_state s) key (JList arr');
                idxs \<leftarrow> py_for_each (\<lambda>u. py_get u ''index'') us;
                arrow_key \<leftarrow> py_get_default params ''styleKey'' (JStr ''arrow'');
                flash_key \<leftarrow> py_get_default params ''styleKey'' (JStr ''changed'');
                let temps1 =
                      (case swap_annotation (filter is_int idxs) arr arr' arrow_key of
                         None \<Rightarrow> temp_elements s
                       | Some t \<Rightarrow> temp_elements s @ [t]);
                let changed =
                      filter (\<lambda>i. is_int i \<and> in_range i (length arr') = Some True) idxs;
                let temps2 =
                      (if fast_mode s \<or> changed = [] then temps1
                       else temps1 @ [JDict [(''type'', JStr ''array_change_flash''),
                                             (''indices'', JList changed),
                                             (''styleKey'', flash_key)]]);
                Some (s\<lparr>current_data_state := ds, temp_elements := temps2\<rparr>)
              }))
      })"

section \<open>Graph operations\<close>

text \<open>
  \<^verbatim>\<open>set(obj)\<close>: the elements of \<open>obj\<close>, all of which must be hashable. The model
  keeps them as a list; only membership is asked of the set.
\<close>

definition py_set_of :: "json \<Rightarrow> json list option" where
  "py_set_of obj =
     (case py_iter obj of
        None \<Rightarrow> None
      | Some xs \<Rightarrow> if list_all hashable xs then Some xs else None)"

text \<open>
  A loop that changes the elements of \<open>obj\<close> in place, given as a function on the
  list of elements. The elements of a string or a dict are fresh strings, so only a list
  keeps the changes.
\<close>

definition py_modify_elems :: "(json list \<Rightarrow> json list option) \<Rightarrow> json \<Rightarrow> json option" where
  "py_modify_elems f obj =
     do {
       xs \<leftarrow> py_iter obj;
       xs' \<leftarrow> f xs;
       Some (case obj of JList l \<Rightarrow> JList xs' | _ \<Rightarrow> obj)
     }"

text \<open>
  The in-place changes \<open>f\<close> of
  \<^verbatim>\<open>self.current_data_state.get("structure", {}).get(key, [])\<close>.
\<close>

definition modify_structure_list ::
  "string \<Rightarrow> (json \<Rightarrow> json option) \<Rightarrow> rstate \<Rightarrow> rstate option" where
  "modify_structure_list key f s =
     do {
       ds \<leftarrow> py_modify_default (current_data_state s) ''structure'' (JDict [])
               (\<lambda>struct. py_modify_default struct key (JList []) f);
       Some (s\<lparr>current_data_state := ds\<rparr>)
     }"

text \<open>The in-place changes \<open>f\<close> of \<^verbatim>\<open>self.current_data_state.get("structure", {})\<close>.\<close>

definition modify_structure :: "(json \<Rightarrow> json option) \<Rightarrow> rstate \<Rightarrow> rstate option" where
  "modify_structure f s =
     do {
       ds \<leftarrow> py_modify_default (current_data_state s) ''structure'' (JDict []) f;
       Some (s\<lparr>current_data_state := ds\<rparr>)
     }"

text \<open>\<^verbatim>\<open>self.data_type not in ("graph", "tree")\<close>\<close>

definition graph_or_tree :: "rstate \<Rightarrow> bool" where
  "graph_or_tree s = (data_type s = JStr ''graph'' \<or> data_type s = JStr ''tree'')"

text \<open>
  \<^verbatim>\<open>_animate_update_node_style\<close>. Outside fast mode the style of the key is looked
  up before the nodes are animated.
\<close>

definition animate_update_node_style :: "json \<Rightarrow> rstate \<Rightarrow> rstate option" where
  "animate_update_node_style params s =
     (if \<not> graph_or_tree s then Some s
      else do {
        ids_raw \<leftarrow> py_get_default params ''ids'' (JList []);
        ids \<leftarrow> py_set_of (if truthy ids_raw then ids_raw else JList []);
        style_key \<leftarrow> py_get params ''styleKey'';
        s' \<leftarrow> modify_structure_list ''nodes''
                (py_for_each_in
                   (\<lambda>node. do {
                      nid \<leftarrow> py_get node ''id'';
                      hit \<leftarrow> py_in_set nid ids;
                      (if hit then py_setitem node ''styleKey'' style_key else Some node)
                    }))
                s;
        drawn \<leftarrow> (if fast_mode s then Some () else get_element_style (styles s) style_key);
        Some s'
      })"

text \<open>
  \<^verbatim>\<open>d.update(other)\<close>. Only a dict argument is modelled, and the empty list or
  string, which change nothing; a sequence of key-value pairs is not.
\<close>

definition py_dict_update :: "json \<Rightarrow> json \<Rightarrow> json option" where
  "py_dict_update d other =
     (case d of
        JDict kv \<Rightarrow>
          (case other of
             JDict kv' \<Rightarrow> Some (JDict (fold (\<lambda>(k, v). AList.update k v) kv' kv))
           | JList [] \<Rightarrow> Some d
           | JStr [] \<Rightarrow> Some d
           | _ \<Rightarrow> None)
      | _ \<Rightarrow> None)"

text \<open>
  The position that \<^verbatim>\<open>{n.get("id"): n for n in nodes}[target_id]\<close> refers to: the
  last node with an equal id.
\<close>

fun last_index_of :: "json \<Rightarrow> json list \<Rightarrow> nat option" where
  "last_index_of x [] = None"
| "last_index_of x (k # ks) =
     (case last_index_of x ks of
        Some i \<Rightarrow> Some (Suc i)
      | None \<Rightarrow> if py_eq k x then Some 0 else None)"

text \<open>One round of the loop of \<^verbatim>\<open>_animate_update_node_properties\<close>.\<close>

definition update_node_props :: "json list \<Rightarrow> json \<Rightarrow> json list \<Rightarrow> json list option" where
  "update_node_props ids update nodes =
     do {
       target_id \<leftarrow> py_get update ''id'';
       (if \<not> hashable target_id then None
        else (case last_index_of target_id ids of
                None \<Rightarrow> Some nodes
              | Some i \<Rightarrow>
                  do {
                    props \<leftarrow> py_get_default update ''properties'' (JDict []);
                    node \<leftarrow> py_modify_setdefault (nodes ! i) ''properties'' (JDict [])
                              (\<lambda>p. py_dict_update p props);
                    Some (nodes[i := node])
                  }))
     }"

text \<open>\<^verbatim>\<open>_animate_update_node_properties\<close>\<close>

definition animate_update_node_properties :: "json \<Rightarrow> rstate \<Rightarrow> rstate option" where
  "animate_update_node_properties params s =
     (if \<not> graph_or_tree s then Some s
      else do {
        updates_raw \<leftarrow> py_get_default params ''updates'' (JList []);
        updates \<leftarrow> py_iter (if truthy updates_raw then updates_raw else JList []);
        modify_structure_list ''nodes''
          (py_modify_elems
             (\<lambda>nodes. do {
                ids \<leftarrow> py_for_each (\<lambda>n. py_get n ''id'') nodes;
                (if list_all hashable ids
                 then py_for updates (update_node_props ids) nodes
                 else None)
              }))
          s
      })"

text \<open>
  The set \<^verbatim>\<open>edge_keys\<close> of \<^verbatim>\<open>_animate_update_edge_style\<close>: a pair for every dict
  among the given edges. Any other element is put into the set as it is, where no pair can
  be equal to it.
\<close>

fun edge_keys_of :: "json list \<Rightarrow> (json \<times> json) list option" where
  "edge_keys_of [] = Some []"
| "edge_keys_of (e # es) =
     (case e of
        JDict kv \<Rightarrow>
          do {
            a \<leftarrow> py_get e ''from'';
            b \<leftarrow> py_get e ''to'';
            (if hashable a \<and> hashable b then map_option ((#) (a, b)) (edge_keys_of es)
             else None)
          }
      | _ \<Rightarrow> if hashable e then edge_keys_of es else None)"

text \<open>\<^verbatim>\<open>_animate_update_edge_style\<close>\<close>

definition animate_update_edge_style :: "json \<Rightarrow> rstate \<Rightarrow> rstate option" where
  "animate_update_edge_style params s =
     (if \<not> graph_or_tree s then Some s
      else do {
        edges_raw \<leftarrow> py_get_default params ''edges'' (JList []);
        es \<leftarrow> py_iter (if truthy edges_raw then edges_raw else JList []);
        edge_keys \<leftarrow> edge_keys_of es;
        style_key \<leftarrow> py_get params ''styleKey'';
        modify_structure_list ''edges''
          (py_for_each_in
             (\<lambda>edge. do {
                a \<leftarrow> py_get edge ''from'';
                b \<leftarrow> py_get edge ''to'';
                (if \<not> (hashable a \<and> hashable b) then None
                 else if list_ex (\<lambda>k. py_eq a (fst k) \<and> py_eq b (snd k)) edge_keys
                 then py_setitem edge ''styleKey'' style_key
                 else Some edge)
              }))
          s
      })"

text \<open>
  \<^verbatim>\<open>xs.append(x)\<close> on the object \<open>xs\<close>: AttributeError unless it is a list.
\<close>

definition py_append :: "json \<Rightarrow> json \<Rightarrow> json option" where
  "py_append xs x = (case xs of JList l \<Rightarrow> Some (JList (l @ [x])) | _ \<Rightarrow> None)"

text \<open>
  \<^verbatim>\<open>if x not in {n.get("id") for n in nodes}: nodes.append(node)\<close>
\<close>

definition append_if_new_id :: "json \<Rightarrow> json \<Rightarrow> json \<Rightarrow> json option" where
  "append_if_new_id node_id node nodes =
     do {
       xs \<leftarrow> py_iter nodes;
       ids \<leftarrow> py_for_each (\<lambda>n. py_get n ''id'') xs;
       known \<leftarrow> py_in_set node_id ids;
       (if known then Some nodes else py_append nodes node)
     }"

text \<open>\<^verbatim>\<open>_animate_add_node\<close>\<close>

definition animate_add_node :: "json \<Rightarrow> rstate \<Rightarrow> rstate option" where
  "animate_add_node params s =
     (if data_type s \<noteq> JStr ''graph'' then Some s
      else do {
        node \<leftarrow> py_get params ''node'';
        (if \<not> truthy node then Some s
         else do {
           node_id \<leftarrow> py_get node ''id'';
           (if \<not> truthy node_id then Some s
            else modify_structure
                   (\<lambda>struct. py_modify_setdefault struct ''nodes'' (JList [])
                                (append_if_new_id node_id node))
                   s)
         })
      })"

text \<open>\<^verbatim>\<open>_animate_remove_node\<close>: the node list is filtered; the edge list is not touched.\<close>

definition animate_remove_node :: "json \<Rightarrow> rstate \<Rightarrow> rstate option" where
  "animate_remove_node params s =
     (if data_type s \<noteq> JStr ''graph'' then Some s
      else do {
        node_id \<leftarrow> py_get params ''id'';
        (if \<not> truthy node_id then Some s
         else modify_structure
                (\<lambda>struct. do {
                   nodes \<leftarrow> py_get_default struct ''nodes'' (JList []);
                   xs \<leftarrow> py_iter nodes;
                   kept \<leftarrow> py_filter
                             (\<lambda>n. map_option (\<lambda>i. \<not> py_eq i node_id) (py_get n ''id'')) xs;
                   py_setitem struct ''nodes'' (JList kept)
                 })
                s)
      })"

text \<open>\<^verbatim>\<open>_animate_add_edge\<close>\<close>

definition animate_add_edge :: "json \<Rightarrow> rstate \<Rightarrow> rstate option" where
  "animate_add_edge params s =
     (if data_type s \<noteq> JStr ''graph'' then Some s
      else do {
        edge \<leftarrow> py_get params ''edge'';
        (if \<not> truthy edge then Some s
         else modify_structure
                (\<lambda>struct. py_modify_setdefault struct ''edges'' (JList [])
                             (\<lambda>edges. py_append edges edge))
                s)
      })"

text \<open>\<^verbatim>\<open>_animate_remove_edge\<close>\<close>

definition animate_remove_edge :: "json \<Rightarrow> rstate \<Rightarrow> rstate option" where
  "animate_remove_edge params s =
     (if data_type s \<noteq> JStr ''graph'' then Some s
      else do {
        from_id \<leftarrow> py_get params ''from'';
        to_id \<leftarrow> py_get params ''to'';
        (if \<not> (truthy from_id \<and> truthy to_id) then Some s
         else modify_structure
                (\<lambda>struct. do {
                   edges \<leftarrow> py_get_default struct ''edges'' (JList []);
                   xs \<leftarrow> py_iter edges;
                   kept \<leftarrow> py_filter
                             (\<lambda>e. do {
                                a \<leftarrow> py_get e ''from'';
                                b \<leftarrow> py_get e ''to'';
                                Some (\<not> (py_eq a from_id \<and> py_eq b to_id))
                              }) xs;
                   py_setitem struct ''edges'' (JList kept)
                 })
                s)
      })"

section \<open>Table operations and annotations\<close>

text \<open>
  \<^verbatim>\<open>obj[i]\<close> for a number \<open>i\<close> that is known to lie in \<^verbatim>\<open>range(len(obj))\<close>: an
  element of a list, a character of a string, KeyError on a dict (its keys are strings).
\<close>

definition py_index :: "json \<Rightarrow> nat \<Rightarrow> json option" where
  "py_index obj i =
     (case obj of
        JList xs \<Rightarrow> if i < length xs then Some (xs ! i) else None
      | JStr t \<Rightarrow> if i < length t then Some (JStr [t ! i]) else None
      | _ \<Rightarrow> None)"

text \<open>
  One round of \<^verbatim>\<open>update_table_data\<close>: the test
  \<^verbatim>\<open>r is not None and c is not None and 0 <= r < len(table_data) and 0 <= c < len(table_data[r])\<close>
  from left to right, then \<^verbatim>\<open>table_data[r][c] = val\<close>, which needs a list of lists
  (a row that is a dict would take a key that is not a string: \<open>None\<close>).
\<close>

definition update_table_cell :: "json \<Rightarrow> json \<Rightarrow> json option" where
  "update_table_cell u table_data =
     do {
       r \<leftarrow> py_get u ''row'';
       c \<leftarrow> py_get u ''col'';
       val \<leftarrow> py_get u ''value'';
       (if r = JNull \<or> c = JNull then Some table_data
        else do {
          ri \<leftarrow> as_int r;
          (if \<not> 0 \<le> ri then Some table_data
           else do {
             n \<leftarrow> py_len table_data;
             (if \<not> ri < int n then Some table_data
              else do {
                ci \<leftarrow> as_int c;
                (if \<not> 0 \<le> ci then Some table_data
                 else do {
                   row \<leftarrow> py_index table_data (nat ri);
                   m \<leftarrow> py_len row;
                   (if \<not> ci < int m then Some table_data
                    else (case table_data of
                            JList rows \<Rightarrow>
                              (case row of
                                 JList cells \<Rightarrow>
                                   Some (JList (rows[nat ri := JList (cells[nat ci := val])]))
                               | _ \<Rightarrow> None)
                          | _ \<Rightarrow> None))
                 })
              })
           })
        })
     }"

definition update_table_data :: "json list \<Rightarrow> json \<Rightarrow> json option" where
  "update_table_data updates table_data = py_for updates update_table_cell table_data"

text \<open>
  \<^verbatim>\<open>create_cell_animations(vid, updates)\<close>, which runs outside fast mode: the test
  \<^verbatim>\<open>vid in self.table_mobjects\<close> hashes \<open>vid\<close>. What follows acts on the cells of
  a table that is drawn and belongs to the drawing side.
\<close>

definition create_cell_animations :: "json \<Rightarrow> unit option" where
  "create_cell_animations vid = (if hashable vid then Some () else None)"

text \<open>
  \<^verbatim>\<open>_animate_update_table_cell\<close>: every auxiliary table with the given
  \<^verbatim>\<open>view_id\<close>, then the main table if the \<^verbatim>\<open>view_id\<close> is one of its names;
  outside fast mode the cell animations follow.
\<close>

definition animate_update_table_cell :: "json \<Rightarrow> rstate \<Rightarrow> rstate option" where
  "animate_update_table_cell params s =
     do {
       view_id \<leftarrow> py_get params ''view_id'';
       updates \<leftarrow> py_get_default params ''updates'' (JList []);
       views \<leftarrow> py_for_each
                  (\<lambda>view. do {
                     vid \<leftarrow> py_get view ''view_id'';
                     ty \<leftarrow> py_get view ''type'';
                     (if py_eq vid view_id \<and> py_eq ty (JStr ''table'')
                      then py_modify_default view ''data'' (JList [])
                             (\<lambda>td. do { us \<leftarrow> py_iter updates; update_table_data us td })
                      else Some view)
                   })
                  (current_aux_views s);
       ds \<leftarrow>
         (if data_type s = JStr ''table'' then
            do {
              curr_vid \<leftarrow> py_get_default (current_data_state s) ''view_id'' (JStr ''main_table'');
              (if py_in_list view_id
                    [JNull, curr_vid, JStr ''dp_table'', JStr ''data_state'', JStr ''main_table'']
               then py_modify_default (current_data_state s) ''data'' (JList [])
                      (\<lambda>td. do { us \<leftarrow> py_iter updates; update_table_data us td })
               else Some (current_data_state s))
            }
          else Some (current_data_state s));
       drawn \<leftarrow>
         (if fast_mode s then Some ()
          else do {
            first \<leftarrow> create_cell_animations view_id;
            (if data_type s = JStr ''table'' then
               do {
                 curr_vid \<leftarrow> py_get_default ds ''view_id'' (JStr ''main_table'');
                 (if py_in_list view_id
                       [JNull, curr_vid, JStr ''dp_table'', JStr ''data_state'',
                        JStr ''main_table'']
                  then create_cell_animations curr_vid
                  else Some ())
               }
             else Some ())
          });
       Some (s\<lparr>current_aux_views := views, current_data_state := ds\<rparr>)
     }"

text \<open>
  A dict display \<^verbatim>\<open>{k1: v1, ..., **params}\<close>: the entries of \<open>params\<close> are written
  over the base in their order. TypeError unless \<open>params\<close> is a dict.
\<close>

definition py_dict_merge :: "(string \<times> json) list \<Rightarrow> json \<Rightarrow> json option" where
  "py_dict_merge base params =
     (case params of
        JDict kv \<Rightarrow> Some (JDict (fold (\<lambda>(k, v). AList.update k v) kv base))
      | _ \<Rightarrow> None)"

text \<open>\<^verbatim>\<open>_animate_highlight_table_cell\<close>\<close>

definition animate_highlight_table_cell :: "json \<Rightarrow> rstate \<Rightarrow> rstate option" where
  "animate_highlight_table_cell params s =
     do {
       t \<leftarrow> py_dict_merge [(''type'', JStr ''table_highlight'')] params;
       Some (s\<lparr>temp_elements := temp_elements s @ [t]\<rparr>)
     }"

text \<open>\<^verbatim>\<open>_animate_show_dependency\<close>\<close>

definition animate_show_dependency :: "json \<Rightarrow> rstate \<Rightarrow> rstate option" where
  "animate_show_dependency params s = Some (s\<lparr>dependencies := dependencies s @ [params]\<rparr>)"

text \<open>\<^verbatim>\<open>_animate_update_boundary\<close>\<close>

definition animate_update_boundary :: "json \<Rightarrow> rstate \<Rightarrow> rstate option" where
  "animate_update_boundary params s =
     do {
       original_type \<leftarrow> py_get params ''type'';
       t \<leftarrow> py_dict_merge
              [(''type'', JStr ''boundary_box''), (''original_type'', original_type)] params;
       t' \<leftarrow> py_setitem t ''type'' (JStr ''boundary_box'');
       Some (s\<lparr>temp_elements := temp_elements s @ [t']\<rparr>)
     }"

text \<open>\<^verbatim>\<open>_animate_remove_boundary\<close>\<close>

definition animate_remove_boundary :: "json \<Rightarrow> rstate \<Rightarrow> rstate option" where
  "animate_remove_boundary params s =
     do {
       type_to_remove \<leftarrow> py_get params ''type'';
       kept \<leftarrow> py_filter
                 (\<lambda>e. do {
                    ty \<leftarrow> py_get e ''type'';
                    ot \<leftarrow> py_get e ''original_type'';
                    Some (\<not> (py_eq ty (JStr ''boundary_box'') \<and> py_eq ot type_to_remove))
                  })
                 (temp_elements s);
       Some (s\<lparr>temp_elements := kept\<rparr>)
     }"

text \<open>\<^verbatim>\<open>_animate_show_comment\<close>\<close>

definition animate_show_comment :: "json \<Rightarrow> rstate \<Rightarrow> rstate option" where
  "animate_show_comment params s =
     do {
       text \<leftarrow> py_get params ''text'';
       Some (if truthy text then s\<lparr>current_comment_text := text\<rparr> else s)
     }"

text \<open>\<^verbatim>\<open>_animate_add_aux_view\<close> and \<^verbatim>\<open>_animate_remove_aux_view\<close>\<close>

definition animate_add_aux_view :: "json \<Rightarrow> rstate \<Rightarrow> rstate option" where
  "animate_add_aux_view params s =
     do {
       view_data \<leftarrow> py_get params ''view'';
       Some (if truthy view_data
             then s\<lparr>current_aux_views := current_aux_views s @ [view_data]\<rparr>
             else s)
     }"

definition animate_remove_aux_view :: "json \<Rightarrow> rstate \<Rightarrow> rstate option" where
  "animate_remove_aux_view params s =
     do {
       view_id_to_remove \<leftarrow> py_get params ''view_id'';
       kept \<leftarrow> py_filter
                 (\<lambda>v. map_option (\<lambda>i. \<not> py_eq i view_id_to_remove) (py_get v ''view_id''))
                 (current_aux_views s);
       Some (s\<lparr>current_aux_views := kept\<rparr>)
     }"

section \<open>Auxiliary list views\<close>

text \<open>
  \<^verbatim>\<open>_find_aux_view_by_id\<close>: the first view whose \<^verbatim>\<open>view_id\<close> equals the argument.
  The model returns its position, so that the caller's in-place changes can be written back.
\<close>

fun find_aux_view_by_id :: "json list \<Rightarrow> json \<Rightarrow> nat option option" where
  "find_aux_view_by_id [] view_id = Some None"
| "find_aux_view_by_id (view # views) view_id =
     (case py_get view ''view_id'' of
        None \<Rightarrow> None
      | Some vid \<Rightarrow>
          (if py_eq vid view_id then Some (Some 0)
           else (case find_aux_view_by_id views view_id of
                   None \<Rightarrow> None
                 | Some None \<Rightarrow> Some None
                 | Some (Some i) \<Rightarrow> Some (Some (Suc i)))))"

text \<open>The body of \<^verbatim>\<open>_animate_append_to_list\<close> after the view has been found or created.\<close>

definition append_to_view :: "json \<Rightarrow> json \<Rightarrow> json \<Rightarrow> json option" where
  "append_to_view list_key val view =
     do {
       data \<leftarrow> py_get view ''data'';
       (case data of
          JDict kv \<Rightarrow>
            (if list_key = JNull then Some view
             else (case list_key of
                     JStr k \<Rightarrow>
                       (case (case map_of kv k of None \<Rightarrow> JList [] | Some l \<Rightarrow> l) of
                          JList l \<Rightarrow> py_setitem view ''data'' (JDict (AList.update k (JList (l @ [val])) kv))
                        | _ \<Rightarrow> None)
                   | _ \<Rightarrow> None))
        | JList l \<Rightarrow> py_setitem view ''data'' (JList (l @ [val]))
        | _ \<Rightarrow> py_setitem view ''data'' (JList [val]))
     }"

text \<open>
  \<^verbatim>\<open>_animate_append_to_list\<close>. A view that is not found, or that is found and empty
  (\<^verbatim>\<open>not view\<close>), is replaced by a new list view appended to the auxiliary views.
  A \<^verbatim>\<open>list_key\<close> that is not a string would add a non-string key: \<open>None\<close>.
\<close>

definition animate_append_to_list :: "json \<Rightarrow> rstate \<Rightarrow> rstate option" where
  "animate_append_to_list params s =
     do {
       view_id \<leftarrow> py_get params ''view_id'';
       val \<leftarrow> py_get params ''value'';
       list_key \<leftarrow> py_get params ''list_key'';
       found \<leftarrow> find_aux_view_by_id (current_aux_views s) view_id;
       (case (case found of
                None \<Rightarrow> None
              | Some i \<Rightarrow> if truthy (current_aux_views s ! i) then Some i else None) of
          None \<Rightarrow>
            do {
              view \<leftarrow> append_to_view list_key val
                        (JDict [(''view_id'', view_id), (''type'', JStr ''list''),
                                (''title'', view_id), (''data'', JList [])]);
              Some (s\<lparr>current_aux_views := current_aux_views s @ [view]\<rparr>)
            }
        | Some i \<Rightarrow>
            do {
              view \<leftarrow> append_to_view list_key val (current_aux_views s ! i);
              Some (s\<lparr>current_aux_views := (current_aux_views s)[i := view]\<rparr>)
            })
     }"

text \<open>
  The removal step of \<^verbatim>\<open>_animate_pop_from_list\<close> on the selected list: by value, else
  by index, else head, else tail. \<open>pop_index\<close> is the test of the by-index branch
  (\<^verbatim>\<open>index is not None and isinstance(index, int) and 0 <= index < len(lst)\<close>) and the
  position it pops.
\<close>

definition pop_index :: "json \<Rightarrow> json list \<Rightarrow> nat option" where
  "pop_index index lst =
     (if index = JNull then None
      else (case as_int index of
              None \<Rightarrow> None
            | Some k \<Rightarrow> if 0 \<le> k \<and> k < int (length lst) then Some (nat k) else None))"

definition pop_from :: "json \<Rightarrow> json \<Rightarrow> json \<Rightarrow> json list \<Rightarrow> json list" where
  "pop_from val index where_from lst =
     (if val \<noteq> JNull then
        (case py_list_remove val lst of None \<Rightarrow> lst | Some lst' \<Rightarrow> lst')
      else (case pop_index index lst of
              Some k \<Rightarrow> take k lst @ drop (Suc k) lst
            | None \<Rightarrow>
                if py_eq where_from (JStr ''head'') \<and> lst \<noteq> [] then tl lst
                else if py_eq where_from (JStr ''tail'') \<and> lst \<noteq> [] then butlast lst
                else lst))"

text \<open>
  The part of \<^verbatim>\<open>_animate_pop_from_list\<close> that selects the list inside the view
  (\<^verbatim>\<open>data[list_key]\<close> for a dict, \<^verbatim>\<open>data\<close> itself otherwise) and pops from it.
\<close>

definition pop_from_view :: "json \<Rightarrow> json \<Rightarrow> json \<Rightarrow> json \<Rightarrow> json \<Rightarrow> json option" where
  "pop_from_view list_key val index where_from view =
     do {
       data \<leftarrow> py_get view ''data'';
       (case data of
          JDict kv \<Rightarrow>
            (if list_key = JNull then Some view
             else if \<not> hashable list_key then None
             else (case list_key of
                     JStr k \<Rightarrow>
                       (case map_of kv k of
                          None \<Rightarrow> Some view
                        | Some (JList l) \<Rightarrow>
                            py_setitem view ''data''
                              (JDict (AList.update k (JList (pop_from val index where_from l)) kv))
                        | Some _ \<Rightarrow> Some view)
                   | _ \<Rightarrow> Some view))
        | JList l \<Rightarrow> py_setitem view ''data'' (JList (pop_from val index where_from l))
        | _ \<Rightarrow> Some view)
     }"

text \<open>\<^verbatim>\<open>_animate_pop_from_list\<close>\<close>

definition animate_pop_from_list :: "json \<Rightarrow> rstate \<Rightarrow> rstate option" where
  "animate_pop_from_list params s =
     do {
       view_id \<leftarrow> py_get params ''view_id'';
       where_from \<leftarrow> py_get params ''from'';
       index \<leftarrow> py_get params ''index'';
       val \<leftarrow> py_get params ''value'';
       list_key \<leftarrow> py_get params ''list_key'';
       found \<leftarrow> find_aux_view_by_id (current_aux_views s) view_id;
       (case found of
          None \<Rightarrow> Some s
        | Some i \<Rightarrow>
            (if \<not> truthy (current_aux_views s ! i) then Some s
             else do {
               view \<leftarrow> pop_from_view list_key val index where_from (current_aux_views s ! i);
               Some (s\<lparr>current_aux_views := (current_aux_views s)[i := view]\<rparr>)
             }))
     }"

text \<open>\<^verbatim>\<open>_animate_clear_list\<close>: empties the list, or every list under a dict.\<close>

definition clear_view :: "json \<Rightarrow> json option" where
  "clear_view view =
     do {
       data \<leftarrow> py_get view ''data'';
       (case data of
          JDict kv \<Rightarrow>
            py_setitem view ''data''
              (JDict (map (\<lambda>(k, v). (k, case v of JList l \<Rightarrow> JList [] | _ \<Rightarrow> v)) kv))
        | JList l \<Rightarrow> py_setitem view ''data'' (JList [])
        | _ \<Rightarrow> Some view)
     }"

definition animate_clear_list :: "json \<Rightarrow> rstate \<Rightarrow> rstate option" where
  "animate_clear_list params s =
     do {
       view_id \<leftarrow> py_get params ''view_id'';
       found \<leftarrow> find_aux_view_by_id (current_aux_views s) view_id;
       (case found of
          None \<Rightarrow> Some s
        | Some i \<Rightarrow>
            (if \<not> truthy (current_aux_views s ! i) then Some s
             else do {
               view \<leftarrow> clear_view (current_aux_views s ! i);
               Some (s\<lparr>current_aux_views := (current_aux_views s)[i := view]\<rparr>)
             }))
     }"

section \<open>Hashtable operations\<close>

text \<open>
  The common frame of the three bucket operations:
  \<^verbatim>\<open>if 0 <= bucket_index < len(buckets): bucket = buckets[bucket_index]; ...\<close>
  with the in-place changes \<open>f\<close> of the bucket.
\<close>

definition modify_bucket :: "json \<Rightarrow> (json \<Rightarrow> json option) \<Rightarrow> json \<Rightarrow> json option" where
  "modify_bucket bucket_index f buckets =
     do {
       bi \<leftarrow> as_int bucket_index;
       (if \<not> 0 \<le> bi then Some buckets
        else do {
          n \<leftarrow> py_len buckets;
          (if \<not> bi < int n then Some buckets
           else do {
             bucket \<leftarrow> py_index buckets (nat bi);
             bucket' \<leftarrow> f bucket;
             (case buckets of
                JList bs \<Rightarrow> Some (JList (bs[nat bi := bucket']))
              | _ \<Rightarrow> Some buckets)
           })
        })
     }"

text \<open>\<^verbatim>\<open>_animate_insert_into_bucket\<close>\<close>

definition animate_insert_into_bucket :: "json \<Rightarrow> rstate \<Rightarrow> rstate option" where
  "animate_insert_into_bucket params s =
     (if data_type s \<noteq> JStr ''hashtable'' then Some s
      else do {
        bucket_index \<leftarrow> py_get params ''bucket_index'';
        element \<leftarrow> py_get params ''element'';
        (if bucket_index = JNull \<or> element = JNull then Some s
         else modify_structure_list ''buckets''
                (modify_bucket bucket_index
                   (\<lambda>bucket. py_modify_setdefault bucket ''items'' (JList [])
                                (\<lambda>items. py_append items element)))
                s)
      })"

text \<open>
  The loop of \<^verbatim>\<open>_animate_update_in_bucket\<close>: the first item with the key takes the
  value, and the loop ends there.
\<close>

fun update_first_item :: "json \<Rightarrow> json \<Rightarrow> json list \<Rightarrow> json list option" where
  "update_first_item key val [] = Some []"
| "update_first_item key val (item # items) =
     do {
       k \<leftarrow> py_get item ''key'';
       (if py_eq k key then map_option (\<lambda>i. i # items) (py_setitem item ''value'' val)
        else map_option ((#) item) (update_first_item key val items))
     }"

text \<open>\<^verbatim>\<open>_animate_update_in_bucket\<close>\<close>

definition animate_update_in_bucket :: "json \<Rightarrow> rstate \<Rightarrow> rstate option" where
  "animate_update_in_bucket params s =
     (if data_type s \<noteq> JStr ''hashtable'' then Some s
      else do {
        bucket_index \<leftarrow> py_get params ''bucket_index'';
        key \<leftarrow> py_get params ''key'';
        val \<leftarrow> py_get params ''value'';
        (if bucket_index = JNull \<or> key = JNull then Some s
         else modify_structure_list ''buckets''
                (modify_bucket bucket_index
                   (\<lambda>bucket. py_modify_default bucket ''items'' (JList [])
                                (py_modify_elems (update_first_item key val))))
                s)
      })"

text \<open>\<^verbatim>\<open>_animate_remove_from_bucket\<close>\<close>

definition animate_remove_from_bucket :: "json \<Rightarrow> rstate \<Rightarrow> rstate option" where
  "animate_remove_from_bucket params s =
     (if data_type s \<noteq> JStr ''hashtable'' then Some s
      else do {
        bucket_index \<leftarrow> py_get params ''bucket_index'';
        key \<leftarrow> py_get params ''key'';
        (if bucket_index = JNull \<or> key = JNull then Some s
         else modify_structure_list ''buckets''
                (modify_bucket bucket_index
                   (\<lambda>bucket. do {
                      items \<leftarrow> py_get_default bucket ''items'' (JList []);
                      xs \<leftarrow> py_iter items;
                      kept \<leftarrow> py_filter
                                (\<lambda>item. map_option (\<lambda>k. \<not> py_eq k key) (py_get item ''key''))
                                xs;
                      py_setitem bucket ''items'' (JList kept)
                    }))
                s)
      })"

section \<open>Tree operations\<close>

text \<open>
  \<^verbatim>\<open>if node_id not in children: insert at index or append\<close>, on the children object
  of the parent. The index is used when \<^verbatim>\<open>index is not None and 0 <= index <= len(children)\<close>.
\<close>

definition insert_child :: "json \<Rightarrow> json \<Rightarrow> json \<Rightarrow> json option" where
  "insert_child node_id index children =
     do {
       present \<leftarrow> py_contains children node_id;
       (if present then Some children
        else (case children of
                JList cs \<Rightarrow>
                  (if index = JNull then Some (JList (cs @ [node_id]))
                   else do {
                     i \<leftarrow> as_int index;
                     Some (if 0 \<le> i \<and> i \<le> int (length cs)
                           then JList (take (nat i) cs @ node_id # drop (nat i) cs)
                           else JList (cs @ [node_id]))
                   })
              | _ \<Rightarrow> None))
     }"

text \<open>
  The loop \<^verbatim>\<open>for n in nodes: if n.get("id") == parent_id: ...; break\<close>, which applies
  the in-place changes \<open>f\<close> to the first node with the id and looks at no later node.
\<close>

fun modify_first_node ::
  "json \<Rightarrow> (json \<Rightarrow> json option) \<Rightarrow> json list \<Rightarrow> json list option" where
  "modify_first_node node_id f [] = Some []"
| "modify_first_node node_id f (n # ns) =
     do {
       nid \<leftarrow> py_get n ''id'';
       (if py_eq nid node_id then map_option (\<lambda>n'. n' # ns) (f n)
        else map_option ((#) n) (modify_first_node node_id f ns))
     }"

text \<open>Attaching a child id to the first node with the parent id (addChild, reparent).\<close>

definition attach_child :: "json \<Rightarrow> json \<Rightarrow> json \<Rightarrow> json list \<Rightarrow> json list option" where
  "attach_child parent_id node_id index nodes =
     modify_first_node parent_id
       (\<lambda>n. py_modify_setdefault n ''children'' (JList []) (insert_child node_id index))
       nodes"

text \<open>
  \<^verbatim>\<open>children = node.get("children", []); if child_id in children: children.remove(child_id)\<close>
  on the first node with the parent id (removeChild, reparent).
\<close>

definition remove_from_children :: "json \<Rightarrow> json \<Rightarrow> json option" where
  "remove_from_children child_id children =
     do {
       present \<leftarrow> py_contains children child_id;
       (if present
        then (case children of
                JList cs \<Rightarrow> map_option JList (py_list_remove child_id cs)
              | _ \<Rightarrow> None)
        else Some children)
     }"

definition detach_child :: "json \<Rightarrow> json \<Rightarrow> json list \<Rightarrow> json list option" where
  "detach_child parent_id child_id nodes =
     modify_first_node parent_id
       (\<lambda>n. py_modify_default n ''children'' (JList []) (remove_from_children child_id))
       nodes"

text \<open>The body of \<^verbatim>\<open>_animate_add_child\<close> on the \<^verbatim>\<open>structure\<close> dict.\<close>

definition add_child_struct :: "json \<Rightarrow> json \<Rightarrow> json \<Rightarrow> json \<Rightarrow> json option" where
  "add_child_struct parent_id node index struct =
     do {
       nodes0 \<leftarrow> py_get_default struct ''nodes'' (JList []);
       node_id \<leftarrow> py_get node ''id'';
       nodes1 \<leftarrow> (if truthy node_id then append_if_new_id node_id node nodes0 else Some nodes0);
       (if truthy parent_id then
          do {
            nodes2 \<leftarrow> py_modify_elems (attach_child parent_id node_id index) nodes1;
            py_setitem struct ''nodes'' nodes2
          }
        else
          do {
            struct1 \<leftarrow> py_setitem struct ''nodes'' nodes1;
            root \<leftarrow> py_get struct1 ''root'';
            (if truthy root then Some struct1 else py_setitem struct1 ''root'' node_id)
          })
     }"

text \<open>\<^verbatim>\<open>_animate_add_child\<close>\<close>

definition animate_add_child :: "json \<Rightarrow> rstate \<Rightarrow> rstate option" where
  "animate_add_child params s =
     (if data_type s \<noteq> JStr ''tree'' then Some s
      else do {
        parent_id \<leftarrow> py_get params ''parent_id'';
        node \<leftarrow> py_get params ''node'';
        index \<leftarrow> py_get params ''index'';
        (case node of
           JDict kv \<Rightarrow> modify_structure (add_child_struct parent_id node index) s
         | _ \<Rightarrow> Some s)
      })"

text \<open>\<^verbatim>\<open>_animate_remove_child\<close>\<close>

definition animate_remove_child :: "json \<Rightarrow> rstate \<Rightarrow> rstate option" where
  "animate_remove_child params s =
     (if data_type s \<noteq> JStr ''tree'' then Some s
      else do {
        parent_id \<leftarrow> py_get params ''parent_id'';
        child_id \<leftarrow> py_get params ''child_id'';
        (if \<not> truthy parent_id \<or> \<not> truthy child_id then Some s
         else modify_structure_list ''nodes''
                (py_modify_elems (detach_child parent_id child_id)) s)
      })"

text \<open>
  The search loop of \<^verbatim>\<open>_animate_reparent\<close>: the position of the first node with the
  id; the nodes after it are not looked at.
\<close>

fun find_node :: "json \<Rightarrow> json list \<Rightarrow> nat option option" where
  "find_node node_id [] = Some None"
| "find_node node_id (n # ns) =
     do {
       nid \<leftarrow> py_get n ''id'';
       (if py_eq nid node_id then Some (Some 0)
        else map_option (map_option Suc) (find_node node_id ns))
     }"

text \<open>The body of \<^verbatim>\<open>_animate_reparent\<close> on the \<^verbatim>\<open>structure\<close> dict.\<close>

definition reparent_struct :: "json \<Rightarrow> json \<Rightarrow> json \<Rightarrow> json \<Rightarrow> json option" where
  "reparent_struct node_id new_parent_id index struct =
     do {
       nodes \<leftarrow> py_get_default struct ''nodes'' (JList []);
       xs \<leftarrow> py_iter nodes;
       found \<leftarrow> find_node node_id xs;
       (case found of
          None \<Rightarrow> Some struct
        | Some t \<Rightarrow>
            (if \<not> truthy (xs ! t) then Some struct
             else do {
               old_parent_id \<leftarrow> py_get (xs ! t) ''parent'';
               xs1 \<leftarrow> (if truthy old_parent_id then detach_child old_parent_id node_id xs
                       else Some xs);
               target \<leftarrow> py_setitem (xs1 ! t) ''parent'' new_parent_id;
               (if truthy new_parent_id then
                  do {
                    xs3 \<leftarrow> attach_child new_parent_id node_id index (xs1[t := target]);
                    py_setitem struct ''nodes'' (JList xs3)
                  }
                else
                  do {
                    struct1 \<leftarrow> py_setitem struct ''nodes'' (JList (xs1[t := target]));
                    py_setitem struct1 ''root'' node_id
                  })
             }))
     }"

text \<open>\<^verbatim>\<open>_animate_reparent\<close>\<close>

definition animate_reparent :: "json \<Rightarrow> rstate \<Rightarrow> rstate option" where
  "animate_reparent params s =
     (if data_type s \<noteq> JStr ''tree'' then Some s
      else do {
        node_id \<leftarrow> py_get params ''node_id'';
        new_parent_id \<leftarrow> py_get params ''new_parent_id'';
        index \<leftarrow> py_get params ''index'';
        (if \<not> truthy node_id then Some s
         else modify_structure (reparent_struct node_id new_parent_id index) s)
      })"

text \<open>
  The search loop of \<^verbatim>\<open>_animate_swap_nodes\<close> runs over all nodes without a break:
  \<^verbatim>\<open>node_a\<close> is the last node with \<^verbatim>\<open>a_id\<close>, \<^verbatim>\<open>node_b\<close> the last node with
  \<^verbatim>\<open>b_id\<close> among those that do not have \<^verbatim>\<open>a_id\<close>.
\<close>

fun last_match :: "(json \<Rightarrow> bool) \<Rightarrow> json list \<Rightarrow> nat option" where
  "last_match P [] = None"
| "last_match P (k # ks) =
     (case last_match P ks of
        Some i \<Rightarrow> Some (Suc i)
      | None \<Rightarrow> if P k then Some 0 else None)"

text \<open>
  \<^verbatim>\<open>if key in node_a and key in node_b: node_a[key], node_b[key] = node_b[key], node_a[key]\<close>
\<close>

definition swap_field :: "string \<Rightarrow> json \<times> json \<Rightarrow> (json \<times> json) option" where
  "swap_field key ab =
     (case (py_getitem (fst ab) key, py_getitem (snd ab) key) of
        (Some va, Some vb) \<Rightarrow>
          do {
            a' \<leftarrow> py_setitem (fst ab) key vb;
            b' \<leftarrow> py_setitem (snd ab) key va;
            Some (a', b')
          }
      | _ \<Rightarrow> Some ab)"

text \<open>\<^verbatim>\<open>_animate_swap_nodes\<close>\<close>

definition swap_nodes_list :: "json \<Rightarrow> json \<Rightarrow> json \<Rightarrow> json list \<Rightarrow> json list option" where
  "swap_nodes_list a_id b_id swap_children nodes =
     do {
       ids \<leftarrow> py_for_each (\<lambda>n. py_get n ''id'') nodes;
       (case (last_match (\<lambda>i. py_eq i a_id) ids,
              last_match (\<lambda>i. \<not> py_eq i a_id \<and> py_eq i b_id) ids) of
          (Some ia, Some ib) \<Rightarrow>
            (if \<not> truthy (nodes ! ia) \<or> \<not> truthy (nodes ! ib) then Some nodes
             else do {
               ab1 \<leftarrow> swap_field ''label'' (nodes ! ia, nodes ! ib);
               ab2 \<leftarrow> swap_field ''properties'' ab1;
               ab3 \<leftarrow> (if truthy swap_children then swap_field ''children'' ab2 else Some ab2);
               Some (nodes[ia := fst ab3, ib := snd ab3])
             })
        | _ \<Rightarrow> Some nodes)
     }"

definition animate_swap_nodes :: "json \<Rightarrow> rstate \<Rightarrow> rstate option" where
  "animate_swap_nodes params s =
     (if data_type s \<noteq> JStr ''tree'' then Some s
      else do {
        a_id \<leftarrow> py_get params ''a_id'';
        b_id \<leftarrow> py_get params ''b_id'';
        swap_children \<leftarrow> py_get_default params ''swap_children'' (JBool False);
        (if \<not> truthy a_id \<or> \<not> truthy b_id then Some s
         else modify_structure_list ''nodes''
                (py_modify_elems (swap_nodes_list a_id b_id swap_children)) s)
      })"

section \<open>Dispatch, delta application and replay\<close>

text \<open>
  The handlers with an empty body (\<^verbatim>\<open>_animate_show_hash\<close>,
  \<^verbatim>\<open>_animate_highlight_collision\<close>, \<^verbatim>\<open>_animate_highlight_bucket\<close>,
  \<^verbatim>\<open>_animate_highlight_path\<close>) and \<^verbatim>\<open>_apply_operation_silent\<close>.
\<close>

definition animate_pass :: "json \<Rightarrow> rstate \<Rightarrow> rstate option" where
  "animate_pass params s = Some s"

definition apply_operation_silent :: "json \<Rightarrow> json \<Rightarrow> rstate \<Rightarrow> rstate option" where
  "apply_operation_silent op_name params s = Some s"

text \<open>The dict \<^verbatim>\<open>op_map\<close> of \<^verbatim>\<open>_process_operation_with_animation\<close>.\<close>

definition op_map ::
  "((json \<times> json) list \<Rightarrow> (json \<times> json) list) \<Rightarrow>
   (string \<times> (json \<Rightarrow> rstate \<Rightarrow> rstate option)) list" where
  "op_map set_order =
     [(''updateStyle'', animate_update_style),
      (''moveElements'', animate_move_elements set_order),
      (''shiftElements'', animate_shift_elements set_order),
      (''updateValues'', animate_update_values),
      (''updateNodeStyle'', animate_update_node_style),
      (''updateNodeProperties'', animate_update_node_properties),
      (''updateEdgeStyle'', animate_update_edge_style),
      (''updateTableCell'', animate_update_table_cell),
      (''highlightTableCell'', animate_highlight_table_cell),
      (''showDependency'', animate_show_dependency),
      (''updateBoundary'', animate_update_boundary),
      (''removeBoundary'', animate_remove_boundary),
      (''addNode'', animate_add_node),
      (''removeNode'', animate_remove_node),
      (''addEdge'', animate_add_edge),
      (''removeEdge'', animate_remove_edge),
      (''addAuxView'', animate_add_aux_view),
      (''removeAuxView'', animate_remove_aux_view),
      (''appendToList'', animate_append_to_list),
      (''popFromList'', animate_pop_from_list),
      (''clearList'', animate_clear_list),
      (''insertIntoBucket'', animate_insert_into_bucket),
      (''updateInBucket'', animate_update_in_bucket),
      (''removeFromBucket'', animate_remove_from_bucket),
      (''showHash'', animate_pass),
      (''highlightCollision'', animate_pass),
      (''highlightBucket'', animate_pass),
      (''showComment'', animate_show_comment),
      (''addChild'', animate_add_child),
      (''removeChild'', animate_remove_child),
      (''reparent'', animate_reparent),
      (''swapNodes'', animate_swap_nodes),
      (''highlightPath'', animate_pass)]"

text \<open>
  \<^verbatim>\<open>_process_operation_with_animation\<close>. \<^verbatim>\<open>op_map.get(op_name)\<close> raises TypeError
  for an unhashable name; a name that is no key of the dict goes to
  \<^verbatim>\<open>_apply_operation_silent\<close>.
\<close>

definition process_operation_with_animation ::
  "((json \<times> json) list \<Rightarrow> (json \<times> json) list) \<Rightarrow> json \<Rightarrow> rstate \<Rightarrow> rstate option" where
  "process_operation_with_animation set_order op s =
     do {
       op_name \<leftarrow> py_get op ''op'';
       params \<leftarrow> py_get_default op ''params'' (JDict []);
       (if \<not> hashable op_name then None
        else (case (case op_name of JStr name \<Rightarrow> map_of (op_map set_order) name | _ \<Rightarrow> None) of
                Some handler \<Rightarrow> handler params s
              | None \<Rightarrow> apply_operation_silent op_name params s))
     }"

text \<open>
  The first loop of \<^verbatim>\<open>_apply_delta_with_animation\<close>: the entries of \<^verbatim>\<open>meta\<close>
  whose name is a known variable are stored.
\<close>

definition update_variables :: "json \<Rightarrow> (string \<times> json) list \<Rightarrow> (string \<times> json) list option" where
  "update_variables meta vars =
     (case meta of
        JDict kv \<Rightarrow>
          Some (fold (\<lambda>(k, v) vs. if map_of vs k \<noteq> None then AList.update k v vs else vs) kv vars)
      | _ \<Rightarrow> None)"

text \<open>
  \<^verbatim>\<open>for op in (op_group if isinstance(op_group, list) else [op_group]):\<close>
  \<^verbatim>\<open>if isinstance(op, dict) and op.get("op"): self._process_operation_with_animation(op)\<close>
\<close>

definition process_op ::
  "((json \<times> json) list \<Rightarrow> (json \<times> json) list) \<Rightarrow> json \<Rightarrow> rstate \<Rightarrow> rstate option" where
  "process_op set_order op s =
     (case op of
        JDict kv \<Rightarrow>
          (if truthy (case map_of kv ''op'' of None \<Rightarrow> JNull | Some n \<Rightarrow> n)
           then process_operation_with_animation set_order op s
           else Some s)
      | _ \<Rightarrow> Some s)"

definition process_op_group ::
  "((json \<times> json) list \<Rightarrow> (json \<times> json) list) \<Rightarrow> json \<Rightarrow> rstate \<Rightarrow> rstate option" where
  "process_op_group set_order op_group s =
     py_for (case op_group of JList ops \<Rightarrow> ops | _ \<Rightarrow> [op_group]) (process_op set_order) s"

text \<open>
  \<^verbatim>\<open>_apply_delta_with_animation\<close>: the variables, the reset of the annotations of the
  previous delta (boundary boxes stay), then the operations in their order.
\<close>

definition apply_delta_with_animation ::
  "((json \<times> json) list \<Rightarrow> (json \<times> json) list) \<Rightarrow> json \<Rightarrow> rstate \<Rightarrow> rstate option" where
  "apply_delta_with_animation set_order delta s =
     do {
       meta \<leftarrow> py_get_default delta ''meta'' (JDict []);
       vars \<leftarrow> update_variables meta (current_variables s);
       kept \<leftarrow> py_filter
                 (\<lambda>e. map_option (\<lambda>ty. py_eq ty (JStr ''boundary_box'')) (py_get e ''type''))
                 (temp_elements s);
       operations \<leftarrow> py_get_default delta ''operations'' (JList []);
       groups \<leftarrow> py_iter operations;
       py_for groups (process_op_group set_order)
         (s\<lparr>current_variables := vars, temp_elements := kept, dependencies := [],
            current_comment_text := JNull\<rparr>)
     }"

text \<open>
  What drawing a frame leaves in the state: \<^verbatim>\<open>_create_array_view\<close> rebuilds
  \<^verbatim>\<open>array_mobjects\<close> with one cell per element of a non-empty array, and
  \<^verbatim>\<open>_update_frame_with_transition\<close> resets \<^verbatim>\<open>skip_smooth_transition\<close>. The drawing
  itself is taken to complete.
\<close>

definition drawn_cells :: "rstate \<Rightarrow> nat" where
  "drawn_cells s =
     (case get_array_list s of
        Some (x # xs) \<Rightarrow> Suc (length xs)
      | _ \<Rightarrow> array_mobjects_len s)"

definition render_frame :: "rstate \<Rightarrow> rstate" where
  "render_frame s = s\<lparr>array_mobjects_len := drawn_cells (s\<lparr>array_mobjects_len := 0\<rparr>)\<rparr>"

definition update_frame_with_transition :: "rstate \<Rightarrow> rstate" where
  "update_frame_with_transition s =
     s\<lparr>array_mobjects_len := drawn_cells s, skip_smooth_transition := False\<rparr>"

text \<open>
  The loop of \<^verbatim>\<open>construct\<close> over \<^verbatim>\<open>self.svl_data["deltas"]\<close>: each delta is applied
  and the frame is drawn.
\<close>

fun replay ::
  "((json \<times> json) list \<Rightarrow> (json \<times> json) list) \<Rightarrow> json list \<Rightarrow> rstate \<Rightarrow> rstate option" where
  "replay set_order [] s = Some s"
| "replay set_order (delta # deltas) s =
     (case apply_delta_with_animation set_order delta s of
        None \<Rightarrow> None
      | Some s' \<Rightarrow> replay set_order deltas (update_frame_with_transition s'))"

definition construct ::
  "((json \<times> json) list \<Rightarrow> (json \<times> json) list) \<Rightarrow> json \<Rightarrow> rstate \<Rightarrow> rstate option" where
  "construct set_order svl_data s =
     do {
       deltas \<leftarrow> py_getitem svl_data ''deltas'';
       ds \<leftarrow> py_iter deltas;
       replay set_order ds (render_frame s)
     }"

section \<open>Construction of the renderer\<close>

text \<open>
  \<^verbatim>\<open>_validate_version\<close> prints a warning when the version is not \<^verbatim>\<open>"5.0"\<close> and
  returns. The model gives whether the warning is printed.
\<close>

definition validate_version :: "json \<Rightarrow> bool" where
  "validate_version version = (\<not> py_eq version (JStr ''5.0''))"

text \<open>
  How the construction of a renderer can end without a state of the model: with one of
  the exceptions of \<^verbatim>\<open>__init__\<close>, or, \<open>NotModelled\<close>, with a renderer that Python
  builds but whose attributes are outside the state type of this model (auxiliary views
  that are no list, a variable whose name is no string).
\<close>

datatype init_error = KeyError string | AttributeError | TypeError | NotModelled

text \<open>
  The search for the auxiliary table \<^verbatim>\<open>dp_table\<close> that stands in for a data state
  without a type.
\<close>

fun find_dp_aux :: "json list \<Rightarrow> nat option" where
  "find_dp_aux [] = None"
| "find_dp_aux (v # vs) =
     (case v of
        JDict kv \<Rightarrow>
          (if py_eq (case map_of kv ''type'' of None \<Rightarrow> JNull | Some x \<Rightarrow> x) (JStr ''table'')
              \<and> py_eq (case map_of kv ''view_id'' of None \<Rightarrow> JNull | Some x \<Rightarrow> x) (JStr ''dp_table'')
           then Some 0
           else map_option Suc (find_dp_aux vs))
      | _ \<Rightarrow> map_option Suc (find_dp_aux vs))"

text \<open>
  The data state and auxiliary views after the first normalisation of \<^verbatim>\<open>__init__\<close>:
  a data state without a type is replaced by the auxiliary table \<^verbatim>\<open>dp_table\<close>, which
  leaves the auxiliary views.
\<close>

definition adopt_dp_table ::
  "(string \<times> json) list \<Rightarrow> json list \<Rightarrow> (string \<times> json) list \<times> json list" where
  "adopt_dp_table ds aux =
     (if truthy (dict_get ds ''type'' JNull) then (ds, aux)
      else (case find_dp_aux aux of
              None \<Rightarrow> (ds, aux)
            | Some i \<Rightarrow>
                (case aux ! i of
                   JDict dp \<Rightarrow>
                     ([(''type'', JStr ''table''),
                       (''view_id'', dict_get dp ''view_id'' (JStr ''main_table'')),
                       (''title'', dict_get dp ''title'' JNull),
                       (''data'', dict_get dp ''data'' (JList [])),
                       (''options'', dict_get dp ''options'' (JDict []))],
                      take i aux @ drop (Suc i) aux)
                 | _ \<Rightarrow> (ds, aux))))"

text \<open>The type aliases of a table and the default \<^verbatim>\<open>view_id\<close> of the main table.\<close>

definition normalise_table :: "(string \<times> json) list \<Rightarrow> (string \<times> json) list" where
  "normalise_table ds =
     (let ds1 =
            (if py_in_list (dict_get ds ''type'' JNull)
                  [JStr ''dp'', JStr ''dp_table'', JStr ''dp_edit_distance'']
             then (let d = AList.update ''type'' (JStr ''table'') ds in
                   if map_of d ''data'' = None
                   then (case dict_get d ''structure'' JNull of
                           JList l \<Rightarrow> AList.update ''data'' (JList l) d
                         | _ \<Rightarrow> d)
                   else d)
             else ds)
      in if py_eq (dict_get ds1 ''type'' JNull) (JStr ''table'')
            \<and> \<not> truthy (dict_get ds1 ''view_id'' JNull)
         then AList.update ''view_id'' (JStr ''dp_table'') ds1
         else ds1)"

text \<open>
  \<^verbatim>\<open>{var["name"]: "-" for var in self.variables_schema}\<close> over the elements of the
  schema, in their order: the first element that raises decides. A name that is hashable
  but no string gives a dict outside the model when no element raises.
\<close>

fun initial_variables :: "json list \<Rightarrow> init_error + (string \<times> json) list" where
  "initial_variables [] = Inr []"
| "initial_variables (var # vars) =
     (case var of
        JDict kv \<Rightarrow>
          (case map_of kv ''name'' of
             None \<Rightarrow> Inl (KeyError ''name'')
           | Some n \<Rightarrow>
               (if \<not> hashable n then Inl TypeError
                else (case initial_variables vars of
                        Inl e \<Rightarrow> Inl e
                      | Inr vs \<Rightarrow>
                          (case n of
                             JStr name \<Rightarrow>
                               Inr ((name, JStr ''-'') # filter (\<lambda>p. fst p \<noteq> name) vs)
                           | _ \<Rightarrow> Inl NotModelled))))
      | _ \<Rightarrow> Inl TypeError)"

text \<open>
  The same over any schema object: the elements of a string or of a dict (its keys) are
  strings, on which \<^verbatim>\<open>var["name"]\<close> raises TypeError.
\<close>

definition schema_variables :: "json \<Rightarrow> init_error + (string \<times> json) list" where
  "schema_variables schema =
     (case schema of
        JList vars \<Rightarrow> initial_variables vars
      | JDict kv \<Rightarrow> if kv = [] then Inr [] else Inl TypeError
      | JStr t \<Rightarrow> if t = [] then Inr [] else Inl TypeError
      | _ \<Rightarrow> Inl TypeError)"

text \<open>
  \<^verbatim>\<open>SVLManimRenderer.__init__\<close>: the state of a new renderer, with the flag whether the
  version warning was printed, or the way the construction ends otherwise. \<open>fast\<close> is the
  environment variable \<^verbatim>\<open>SVL_FAST_MODE\<close>. The auxiliary views are iterated only when the
  data state has no type; the elements of a string or a dict are no dicts, so the search
  for the table \<^verbatim>\<open>dp_table\<close> finds nothing in them.
\<close>

definition init_renderer :: "bool \<Rightarrow> json \<Rightarrow> init_error + (bool \<times> rstate)" where
  "init_renderer fast svl_data =
     (case svl_data of
        JDict doc \<Rightarrow>
          (let warned = validate_version (dict_get doc ''svl_version'' JNull) in
           case map_of doc ''algorithm'' of
             None \<Rightarrow> Inl (KeyError ''algorithm'')
           | Some algorithm_info \<Rightarrow>
               (case map_of doc ''initial_frame'' of
                  None \<Rightarrow> Inl (KeyError ''initial_frame'')
                | Some (JDict frame) \<Rightarrow>
                    (case map_of frame ''styles'' of
                       None \<Rightarrow> Inl (KeyError ''styles'')
                     | Some sty \<Rightarrow>
                         (case map_of frame ''data_state'' of
                            None \<Rightarrow> Inl (KeyError ''data_state'')
                          | Some (JDict ds0) \<Rightarrow>
                              (let aux0 = dict_get frame ''auxiliary_views'' (JList []);
                                   schema = dict_get frame ''variables_schema'' (JList [])
                               in if \<not> truthy (dict_get ds0 ''type'' JNull) \<and> py_iter aux0 = None
                                  then Inl TypeError
                                  else (case schema_variables schema of
                                          Inl e \<Rightarrow> Inl e
                                        | Inr vars \<Rightarrow>
                                            (case aux0 of
                                               JList views \<Rightarrow>
                                                 (let (ds1, aux) = adopt_dp_table ds0 views;
                                                      ds = normalise_table ds1
                                                  in Inr (warned,
                                                          \<lparr>data_type = dict_get ds ''type'' (JStr ''none''),
                                                           fast_mode = fast,
                                                           styles = sty,
                                                           current_data_state = JDict ds,
                                                           current_aux_views = aux,
                                                           current_variables = vars,
                                                           temp_elements = [],
                                                           dependencies = [],
                                                           current_comment_text = JNull,
                                                           skip_smooth_transition = False,
                                                           array_mobjects_len = 0\<rparr>))
                                             | _ \<Rightarrow> Inl NotModelled)))
                          | Some _ \<Rightarrow> Inl AttributeError))
                | Some _ \<Rightarrow> Inl TypeError))
      | _ \<Rightarrow> Inl AttributeError)"

section \<open>Validation of a generated trace\<close>

text \<open>
  The checks of \<^verbatim>\<open>run_and_validate_trace\<close> (\<^verbatim>\<open>src/toolmaker/tool_maker_agent.py\<close>)
  on the loaded \<^verbatim>\<open>trace.json\<close>: the first failing check gives the error message, here
  a constructor per message.
\<close>

datatype trace_error =
    RootNotObject
  | InvalidVersion json
  | MissingInitialFrame
  | MissingDeltas

definition validate_trace :: "json \<Rightarrow> trace_error + json" where
  "validate_trace trace =
     (case trace of
        JDict kv \<Rightarrow>
          (if \<not> py_eq (dict_get kv ''svl_version'' JNull) (JStr ''5.0'')
           then Inl (InvalidVersion (dict_get kv ''svl_version'' JNull))
           else if map_of kv ''initial_frame'' = None then Inl MissingInitialFrame
           else if map_of kv ''deltas'' = None then Inl MissingDeltas
           else Inr trace)
      | _ \<Rightarrow> Inl RootNotObject)"

section \<open>Notions used to state the properties\<close>

text \<open>No view of the list carries the given \<^verbatim>\<open>view_id\<close> (every view is a dict).\<close>

definition view_id_absent :: "json list \<Rightarrow> json \<Rightarrow> bool" where
  "view_id_absent views view_id =
     list_all (\<lambda>v. case py_get v ''view_id'' of None \<Rightarrow> False | Some x \<Rightarrow> \<not> py_eq x view_id)
       views"

text \<open>The list view that \<^verbatim>\<open>appendToList\<close> makes for an unknown \<^verbatim>\<open>view_id\<close>.\<close>

definition new_list_view :: "json \<Rightarrow> json \<Rightarrow> json" where
  "new_list_view view_id val =
     JDict [(''view_id'', view_id), (''type'', JStr ''list''), (''title'', view_id),
            (''data'', JList [val])]"

text \<open>A small state for the concrete instances below.\<close>

definition list_state :: rstate where
  "list_state =
     \<lparr>data_type = JStr ''array'', fast_mode = False, styles = JDict [],
      current_data_state = JDict [],
      current_aux_views =
        [JDict [(''view_id'', JStr ''queue''), (''type'', JStr ''list''),
                (''data'', JList [JInt 3, JInt 5, JInt 3])]],
      current_variables = [], temp_elements = [], dependencies = [],
      current_comment_text = JNull, skip_smooth_transition = False, array_mobjects_len = 0\<rparr>"

text \<open>
  The position \<open>k\<close> that an index names in a list of \<open>n\<close> elements: an integer within
  the list (\<^verbatim>\<open>False\<close> and \<^verbatim>\<open>True\<close> are the integers 0 and 1). Negative indices name
  no position for \<^verbatim>\<open>popFromList\<close>.
\<close>

definition names_position :: "json \<Rightarrow> nat \<Rightarrow> nat \<Rightarrow> bool" where
  "names_position index n k =
     (k < n \<and> (index = JInt (int k) \<or> (index = JBool False \<and> k = 0)
                \<or> (index = JBool True \<and> k = 1)))"

text \<open>
  What \<^verbatim>\<open>popFromList\<close> is to make of a list \<open>lst\<close>, by the four modes in their priority:
  a value removes its first match, or nothing when there is none; else an index that names
  a position removes that element; else \<^verbatim>\<open>head\<close> removes the first and \<^verbatim>\<open>tail\<close> the
  last element; else the list stays.
\<close>

definition popped :: "json \<Rightarrow> json \<Rightarrow> json \<Rightarrow> json list \<Rightarrow> json list \<Rightarrow> bool" where
  "popped val index wh lst lst' =
     ((val \<noteq> JNull \<and> \<not> list_ex (\<lambda>y. py_eq y val) lst \<longrightarrow> lst' = lst)
      \<and> (val \<noteq> JNull \<and> list_ex (\<lambda>y. py_eq y val) lst \<longrightarrow>
           (\<exists>pre x post. lst = pre @ x # post \<and> \<not> list_ex (\<lambda>y. py_eq y val) pre
              \<and> py_eq x val \<and> lst' = pre @ post))
      \<and> (\<forall>k. val = JNull \<and> names_position index (length lst) k \<longrightarrow>
             lst' = take k lst @ drop (Suc k) lst)
      \<and> (val = JNull \<and> (\<forall>k. \<not> names_position index (length lst) k) \<and> wh = JStr ''head''
           \<longrightarrow> lst' = tl lst)
      \<and> (val = JNull \<and> (\<forall>k. \<not> names_position index (length lst) k) \<and> wh = JStr ''tail''
           \<longrightarrow> lst' = butlast lst)
      \<and> (val = JNull \<and> (\<forall>k. \<not> names_position index (length lst) k)
           \<and> wh \<noteq> JStr ''head'' \<and> wh \<noteq> JStr ''tail'' \<longrightarrow> lst' = lst))"

text \<open>A state whose only view keeps two named lists, for the concrete instances below.\<close>

definition keyed_list_state :: rstate where
  "keyed_list_state =
     list_state\<lparr>current_aux_views :=
       [JDict [(''view_id'', JStr ''sets''), (''type'', JStr ''list''),
               (''data'', JDict [(''open'', JList [JInt 1, JInt 2]),
                                 (''closed'', JList [JInt 7])])]]\<rparr>"

text \<open>The operation parameter \<^verbatim>\<open>{"fromIndex": a, "toIndex": b}\<close>.\<close>

definition pair_of :: "int \<Rightarrow> int \<Rightarrow> json" where
  "pair_of a b = JDict [(''fromIndex'', JInt a), (''toIndex'', JInt b)]"

text \<open>
  The array in which the cells at positions \<open>a\<close> and \<open>b\<close> are the dicts \<open>ca\<close> and
  \<open>cb\<close> with their \<^verbatim>\<open>index\<close> fields set to their positions.
\<close>

definition reindexed ::
  "json list \<Rightarrow> int \<Rightarrow> int \<Rightarrow> (string \<times> json) list \<Rightarrow> (string \<times> json) list \<Rightarrow> json list" where
  "reindexed arr a b ca cb =
     arr[nat a := JDict (AList.update ''index'' (JInt a) ca),
         nat b := JDict (AList.update ''index'' (JInt b) cb)]"

text \<open>A cell without its \<^verbatim>\<open>index\<close> field.\<close>

definition without_index :: "json \<Rightarrow> json" where
  "without_index c = (case c of JDict kv \<Rightarrow> JDict (AList.delete ''index'' kv) | _ \<Rightarrow> c)"

text \<open>An array state with three cells, for the concrete instances below.\<close>

definition cell :: "int \<Rightarrow> string \<Rightarrow> (string \<times> json) list" where
  "cell i v = [(''index'', JInt i), (''value'', JStr v), (''state'', JStr ''idle'')]"

definition array_state :: rstate where
  "array_state =
     \<lparr>data_type = JStr ''array'', fast_mode = False, styles = JDict [],
      current_data_state =
        JDict [(''type'', JStr ''array''),
               (''data'', JList [JDict (cell 0 ''x''), JDict (cell 1 ''y''), JDict (cell 2 ''z'')])],
      current_aux_views = [], current_variables = [], temp_elements = [], dependencies = [],
      current_comment_text = JNull, skip_smooth_transition = False, array_mobjects_len = 3\<rparr>"

text \<open>
  A list under \<^verbatim>\<open>structure\<close> (the nodes, edges or buckets of the data state), the node
  list and the root of a tree or graph state, the children list of a node, and
  the shape of a node that the tree operations expect: a dict whose \<^verbatim>\<open>children\<close>, if
  present, is a list. \<open>occurrences\<close> counts the elements equal to a value.
\<close>

definition structure_list :: "string \<Rightarrow> rstate \<Rightarrow> json list option" where
  "structure_list key s =
     (case py_getitem (current_data_state s) ''structure'' of
        None \<Rightarrow> None
      | Some struct \<Rightarrow>
          (case py_getitem struct key of Some (JList ns) \<Rightarrow> Some ns | _ \<Rightarrow> None))"

definition tree_nodes :: "rstate \<Rightarrow> json list option" where
  "tree_nodes s = structure_list ''nodes'' s"

definition tree_root :: "rstate \<Rightarrow> json option" where
  "tree_root s =
     (case py_getitem (current_data_state s) ''structure'' of
        None \<Rightarrow> None
      | Some struct \<Rightarrow> py_getitem struct ''root'')"

definition node_children :: "json \<Rightarrow> json list" where
  "node_children n = (case py_getitem n ''children'' of Some (JList cs) \<Rightarrow> cs | _ \<Rightarrow> [])"

definition node_ok :: "json \<Rightarrow> bool" where
  "node_ok n =
     (case n of
        JDict kv \<Rightarrow>
          (case map_of kv ''children'' of
             None \<Rightarrow> True
           | Some c \<Rightarrow> (case c of JList cs \<Rightarrow> True | _ \<Rightarrow> False))
      | _ \<Rightarrow> False)"

definition occurrences :: "json \<Rightarrow> json list \<Rightarrow> nat" where
  "occurrences v cs = length (filter (\<lambda>y. py_eq y v) cs)"

text \<open>
  A tree \<^verbatim>\<open>r -> (a, b)\<close> with string ids, and a tree \<^verbatim>\<open>1 -> 0\<close> whose ids are the
  numbers 1 and 0, for the concrete instances below.
\<close>

definition tree_of :: "json \<Rightarrow> json list \<Rightarrow> rstate" where
  "tree_of root nodes =
     \<lparr>data_type = JStr ''tree'', fast_mode = False, styles = JDict [],
      current_data_state =
        JDict [(''type'', JStr ''tree''),
               (''structure'', JDict [(''root'', root), (''nodes'', JList nodes)])],
      current_aux_views = [], current_variables = [], temp_elements = [], dependencies = [],
      current_comment_text = JNull, skip_smooth_transition = False, array_mobjects_len = 0\<rparr>"

definition letter_tree :: rstate where
  "letter_tree =
     tree_of (JStr ''r'')
       [JDict [(''id'', JStr ''r''), (''children'', JList [JStr ''a'', JStr ''b''])],
        JDict [(''id'', JStr ''a''), (''parent'', JStr ''r''), (''children'', JList [])],
        JDict [(''id'', JStr ''b''), (''parent'', JStr ''r'')]]"

definition number_tree :: rstate where
  "number_tree =
     tree_of (JInt 1)
       [JDict [(''id'', JInt 1), (''children'', JList [JInt 0])],
        JDict [(''id'', JInt 0), (''parent'', JInt 1), (''children'', JList [])]]"


text \<open>The operation names that \<^verbatim>\<open>op_map\<close> knows.\<close>

definition op_names :: "string list" where
  "op_names =
     [''updateStyle'', ''moveElements'', ''shiftElements'', ''updateValues'',
      ''updateNodeStyle'', ''updateNodeProperties'', ''updateEdgeStyle'',
      ''updateTableCell'', ''highlightTableCell'', ''showDependency'', ''updateBoundary'',
      ''removeBoundary'', ''addNode'', ''removeNode'', ''addEdge'', ''removeEdge'',
      ''addAuxView'', ''removeAuxView'', ''appendToList'', ''popFromList'', ''clearList'',
      ''insertIntoBucket'', ''updateInBucket'', ''removeFromBucket'', ''showHash'',
      ''highlightCollision'', ''highlightBucket'', ''showComment'', ''addChild'',
      ''removeChild'', ''reparent'', ''swapNodes'', ''highlightPath'']"

text \<open>A trace document with the given version string, for the concrete instances below.\<close>

definition trace_doc :: "string \<Rightarrow> (string \<times> json) list" where
  "trace_doc version =
     [(''svl_version'', JStr version),
      (''algorithm'', JDict [(''name'', JStr ''Sieve''), (''family'', JStr ''array'')]),
      (''initial_frame'',
       JDict [(''styles'', JDict []),
              (''data_state'',
               JDict [(''type'', JStr ''array''),
                      (''data'', JList [JDict (cell 0 ''T''), JDict (cell 1 ''T'')])])]),
      (''deltas'', JList [])]"

text \<open>The renderer state that \<open>trace_doc\<close> is loaded into.\<close>

definition trace_doc_state :: rstate where
  "trace_doc_state =
     \<lparr>data_type = JStr ''array'', fast_mode = False, styles = JDict [],
      current_data_state =
        JDict [(''type'', JStr ''array''),
               (''data'', JList [JDict (cell 0 ''T''), JDict (cell 1 ''T'')])],
      current_aux_views = [], current_variables = [], temp_elements = [], dependencies = [],
      current_comment_text = JNull, skip_smooth_transition = False, array_mobjects_len = 0\<rparr>"




text \<open>The id of a node dict (\<^verbatim>\<open>None\<close> when it has none).\<close>

definition node_id_of :: "json \<Rightarrow> json" where
  "node_id_of n = (case py_get n ''id'' of None \<Rightarrow> JNull | Some i \<Rightarrow> i)"

text \<open>The number of cells of the array that the drawing side reads.\<close>

definition array_length :: "rstate \<Rightarrow> nat option" where
  "array_length s = map_option length (get_array_list s)"

text \<open>A delta that swaps the outer cells of \<open>array_state\<close> and sets a comment.\<close>

definition swap_delta :: json where
  "swap_delta =
     JDict [(''operations'',
             JList [JList [JDict [(''op'', JStr ''moveElements''),
                                  (''params'', JDict [(''pairs'', JList [pair_of 0 2])])],
                           JDict [(''op'', JStr ''showComment''),
                                  (''params'', JDict [(''text'', JStr ''swap'')])]]])]"

text \<open>
  Notions for the tree operations. \<open>parent_of\<close> is the \<^verbatim>\<open>parent\<close> entry of a node
  (\<^verbatim>\<open>None\<close> when it has none). \<open>first_with_id v nodes i\<close>: position \<open>i\<close> holds the first
  node whose id equals \<open>v\<close>. \<open>without_first v cs\<close> is the list \<open>cs\<close> without its first
  element equal to \<open>v\<close>; \<open>children_without v n\<close> is the node \<open>n\<close> with that change made to
  its list of children, and \<open>with_parent p n\<close> the node \<open>n\<close> with the \<^verbatim>\<open>parent\<close> entry
  \<open>p\<close>. \<open>rooted s dkv skv root nodes\<close> is the state \<open>s\<close> whose data state \<open>dkv\<close> has the
  structure \<open>skv\<close> with the given root and list of nodes written into it.
\<close>

definition parent_of :: "json \<Rightarrow> json" where
  "parent_of n = (case py_get n ''parent'' of None \<Rightarrow> JNull | Some p \<Rightarrow> p)"

definition first_with_id :: "json \<Rightarrow> json list \<Rightarrow> nat \<Rightarrow> bool" where
  "first_with_id v nodes i =
     (i < length nodes \<and> py_eq (node_id_of (nodes ! i)) v
      \<and> list_all (\<lambda>n. \<not> py_eq (node_id_of n) v) (take i nodes))"

definition without_first :: "json \<Rightarrow> json list \<Rightarrow> json list" where
  "without_first v cs =
     takeWhile (\<lambda>y. \<not> py_eq y v) cs @ drop 1 (dropWhile (\<lambda>y. \<not> py_eq y v) cs)"

definition children_without :: "json \<Rightarrow> json \<Rightarrow> json" where
  "children_without v n =
     (case n of
        JDict kv \<Rightarrow>
          (case map_of kv ''children'' of
             Some (JList cs) \<Rightarrow> JDict (AList.update ''children'' (JList (without_first v cs)) kv)
           | _ \<Rightarrow> n)
      | _ \<Rightarrow> n)"

definition with_parent :: "json \<Rightarrow> json \<Rightarrow> json" where
  "with_parent p n = (case n of JDict kv \<Rightarrow> JDict (AList.update ''parent'' p kv) | _ \<Rightarrow> n)"

definition rooted ::
  "rstate \<Rightarrow> (string \<times> json) list \<Rightarrow> (string \<times> json) list \<Rightarrow> json \<Rightarrow> json list \<Rightarrow> rstate" where
  "rooted s dkv skv root nodes =
     s\<lparr>current_data_state :=
         JDict (AList.update ''structure''
                  (JDict (AList.update ''root'' root (AList.update ''nodes'' (JList nodes) skv)))
                  dkv)\<rparr>"


section \<open>Basic facts about the Python operations\<close>

lemma py_get_dict: "py_get d k = Some v \<Longrightarrow> \<exists>kv. d = JDict kv"
  by (cases d) (auto simp: py_get_def py_get_default_def)

lemma py_get_JDict:
  "py_get (JDict kv) k = Some (case map_of kv k of None \<Rightarrow> JNull | Some v \<Rightarrow> v)"
  by (simp add: py_get_def py_get_default_def)

lemma find_aux_view_absent:
  "view_id_absent views view_id \<Longrightarrow> find_aux_view_by_id views view_id = Some None"
  by (induction views) (auto simp: view_id_absent_def split: option.splits)

lemma py_list_remove_absent:
  "\<not> list_ex (\<lambda>y. py_eq y v) xs \<Longrightarrow> py_list_remove v xs = None"
  by (induction xs) auto

lemma py_list_remove_first:
  "\<not> list_ex (\<lambda>y. py_eq y v) pre \<Longrightarrow> py_eq x v \<Longrightarrow>
   py_list_remove v (pre @ x # post) = Some (pre @ post)"
  by (induction pre) auto

lemma list_ex_first:
  "list_ex P xs \<Longrightarrow> \<exists>pre x post. xs = pre @ x # post \<and> \<not> list_ex P pre \<and> P x"
proof (induction xs)
  case Nil
  then show ?case by simp
next
  case (Cons a xs)
  show ?case
  proof (cases "P a")
    case True
    then have "a # xs = [] @ a # xs \<and> \<not> list_ex P [] \<and> P a" by simp
    then show ?thesis by blast
  next
    case False
    with Cons obtain pre x post where h: "xs = pre @ x # post" "\<not> list_ex P pre" "P x"
      by auto
    then have "a # xs = (a # pre) @ x # post \<and> \<not> list_ex P (a # pre) \<and> P x"
      using False by simp
    then show ?thesis by blast
  qed
qed

lemma py_setitem_JDict: "py_setitem (JDict kv) k v = Some (JDict (AList.update k v kv))"
  by (simp add: py_setitem_def)

lemma pop_from_view_list:
  "map_of vkv ''data'' = Some (JList lst) \<Longrightarrow>
   pop_from_view list_key val index wh (JDict vkv)
     = Some (JDict (AList.update ''data'' (JList (pop_from val index wh lst)) vkv))"
  by (simp add: pop_from_view_def py_get_JDict py_setitem_JDict)

lemma animate_pop_from_list_found:
  assumes "py_get params ''view_id'' = Some view_id"
    and "py_get params ''value'' = Some val"
    and "py_get params ''index'' = Some index"
    and "py_get params ''from'' = Some wh"
    and "find_aux_view_by_id (current_aux_views s) view_id = Some (Some i)"
    and "current_aux_views s ! i = JDict vkv"
    and "map_of vkv ''data'' = Some (JList lst)"
  shows "animate_pop_from_list params s =
           Some (s\<lparr>current_aux_views := (current_aux_views s)
                  [i := JDict (AList.update ''data'' (JList (pop_from val index wh lst)) vkv)]\<rparr>)"
proof -
  obtain kv where kv: "params = JDict kv"
    using assms(1) py_get_dict by blast
  have ne: "vkv \<noteq> []" using assms(7) by auto
  show ?thesis
    using assms ne unfolding animate_pop_from_list_def kv
    by (simp add: py_get_JDict pop_from_view_list)
qed

lemma get_array_list_ref_dict:
  "get_array_list_ref s = Some (Some (arr, key)) \<Longrightarrow>
   \<exists>kv. current_data_state s = JDict kv \<and> data_type s = JStr ''array''
        \<and> (key = ''data'' \<or> key = ''structure'')"
  by (cases "current_data_state s")
     (auto simp: get_array_list_ref_def py_get_def py_get_default_def
           split: if_splits option.splits json.splits)

lemma get_array_list_ref_write:
  assumes "get_array_list_ref s = Some (Some (arr, key))"
    and "data_type s' = data_type s"
    and "py_setitem (current_data_state s) key (JList arr') = Some (current_data_state s')"
  shows "get_array_list_ref s' = Some (Some (arr', key))"
proof -
  obtain kv where kv: "current_data_state s = JDict kv" and ty: "data_type s = JStr ''array''"
    using get_array_list_ref_dict[OF assms(1)] by blast
  have ds': "current_data_state s' = JDict (AList.update key (JList arr') kv)"
    using assms(3) by (simp add: kv py_setitem_def)
  show ?thesis
    using assms(1) ty assms(2)
    by (auto simp: get_array_list_ref_def py_get_def py_get_default_def kv ds' update_conv'
             split: if_splits option.splits json.splits)
qed

lemma py_setitem_total:
  "get_array_list_ref s = Some (Some (arr, key)) \<Longrightarrow>
   \<exists>ds. py_setitem (current_data_state s) key (JList arr') = Some ds"
  using get_array_list_ref_dict by (fastforce simp: py_setitem_def)

lemma find_node_total:
  "list_all (\<lambda>n. py_get n ''id'' \<noteq> None) ns \<Longrightarrow> \<exists>r. find_node k ns = Some r"
  by (induction ns) auto

lemma find_node_bound:
  "find_node k ns = Some (Some i) \<Longrightarrow> i < length ns"
proof (induction ns arbitrary: i)
  case Nil
  then show ?case by simp
next
  case (Cons n ns)
  then show ?case
    by (auto split: Option.bind_splits if_splits)
qed

lemma find_node_match:
  "find_node k ns = Some (Some i) \<Longrightarrow> \<exists>nid. py_get (ns ! i) ''id'' = Some nid \<and> py_eq nid k"
proof (induction ns arbitrary: i)
  case Nil
  then show ?case by simp
next
  case (Cons n ns)
  then show ?case
    by (auto split: Option.bind_splits if_splits)
qed

lemma modify_first_node_spec:
  assumes "list_all (\<lambda>n. py_get n ''id'' \<noteq> None \<and> f n \<noteq> None) ns"
  shows "\<exists>ns'. modify_first_node k f ns = Some ns' \<and> length ns' = length ns
           \<and> (\<forall>i<length ns. ns' ! i =
                 (if find_node k ns = Some (Some i) then the (f (ns ! i)) else ns ! i))"
  using assms
proof (induction ns)
  case Nil
  then show ?case by simp
next
  case (Cons n ns)
  then obtain nid n' where n: "py_get n ''id'' = Some nid" "f n = Some n'"
    by auto
  show ?case
  proof (cases "py_eq nid k")
    case True
    then show ?thesis
      using n by (auto simp: nth_Cons')
  next
    case False
    from Cons obtain ns' where ih: "modify_first_node k f ns = Some ns'" "length ns' = length ns"
        "\<forall>i<length ns. ns' ! i = (if find_node k ns = Some (Some i) then the (f (ns ! i)) else ns ! i)"
      by auto
    obtain r where r: "find_node k ns = Some r"
      using Cons.prems find_node_total[of ns k] by (auto simp: list_all_iff)
    have "\<forall>i<length (n # ns). (n # ns') ! i =
            (if find_node k (n # ns) = Some (Some i) then the (f ((n # ns) ! i)) else (n # ns) ! i)"
    proof (intro allI impI)
      fix i assume "i < length (n # ns)"
      show "(n # ns') ! i =
            (if find_node k (n # ns) = Some (Some i) then the (f ((n # ns) ! i)) else (n # ns) ! i)"
      proof (cases i)
        case 0
        then show ?thesis using n False r by (cases r) auto
      next
        case (Suc j)
        then have "j < length ns" using \<open>i < length (n # ns)\<close> by simp
        then show ?thesis using n False r ih(3) Suc by (cases r) auto
      qed
    qed
    then show ?thesis
      using n False ih(1,2) by simp
  qed
qed





lemma find_aux_view_first:
  assumes "i < length views" and "view_id_absent (take i views) view_id"
    and "py_get (views ! i) ''view_id'' = Some x" and "py_eq x view_id"
  shows "find_aux_view_by_id views view_id = Some (Some i)"
  using assms
proof (induction views arbitrary: i)
  case Nil
  then show ?case by simp
next
  case (Cons v vs)
  show ?case
  proof (cases i)
    case 0
    then show ?thesis using Cons.prems by simp
  next
    case (Suc j)
    then have "find_aux_view_by_id vs view_id = Some (Some j)"
      using Cons.prems Cons.IH[of j] by (simp add: view_id_absent_def)
    then show ?thesis
      using Cons.prems Suc by (auto simp: view_id_absent_def split: option.splits)
  qed
qed

lemma node_ok_get_id: "node_ok n \<Longrightarrow> py_get n ''id'' = Some (node_id_of n)"
  by (cases n) (auto simp: node_ok_def node_id_of_def py_get_def py_get_default_def)

lemma find_node_first:
  assumes "list_all node_ok ns" and "first_with_id v ns t"
  shows "find_node v ns = Some (Some t)"
  using assms
proof (induction ns arbitrary: t)
  case Nil
  then show ?case by (simp add: first_with_id_def)
next
  case (Cons n ns)
  have id: "py_get n ''id'' = Some (node_id_of n)" using Cons.prems(1) by (simp add: node_ok_get_id)
  show ?case
  proof (cases t)
    case 0
    then show ?thesis using Cons.prems(2) id by (simp add: first_with_id_def)
  next
    case (Suc j)
    then have "first_with_id v ns j" and "\<not> py_eq (node_id_of n) v"
      using Cons.prems(2) by (simp_all add: first_with_id_def)
    then show ?thesis using Cons.IH[of j] Cons.prems(1) id Suc by simp
  qed
qed

lemma find_node_none:
  assumes "list_all node_ok ns" and "list_all (\<lambda>n. \<not> py_eq (node_id_of n) v) ns"
  shows "find_node v ns = Some None"
  using assms
proof (induction ns)
  case Nil
  then show ?case by simp
next
  case (Cons n ns)
  then show ?case by (simp add: node_ok_get_id)
qed

lemma found_node_truthy:
  assumes "find_node node_id nodes = Some (Some t)" "truthy node_id"
  shows "truthy (nodes ! t)"
proof -
  obtain nid where nid: "py_get (nodes ! t) ''id'' = Some nid" "py_eq nid node_id"
    using find_node_match[OF assms(1)] by blast
  show ?thesis
  proof (cases "nodes ! t")
    case (JDict kv)
    have "kv \<noteq> []"
    proof
      assume "kv = []"
      then have "nid = JNull" using nid(1) JDict by (simp add: py_get_def py_get_default_def)
      then have "node_id = JNull" using nid(2) by simp
      then show False using assms(2) by simp
    qed
    then show ?thesis using JDict by simp
  qed (use nid(1) in \<open>auto simp: py_get_def py_get_default_def\<close>)
qed

section \<open>Out-of-range and unknown references\<close>














section \<open>Unknown operation names\<close>

lemma op_map_keys: "map fst (op_map set_order) = op_names"
  by (simp add: op_map_def op_names_def)

lemma op_map_unknown: "name \<notin> set op_names \<Longrightarrow> map_of (op_map set_order) name = None"
  using op_map_keys[of set_order] by (metis map_of_eq_None_iff set_map)

text \<open>
  C4. An operation whose name is a string that is no key of \<^verbatim>\<open>op_map\<close> never raises and
  leaves the whole state as it is, whether it is applied by the dispatcher directly, as a
  group of its own, or inside a group.
\<close>

theorem unknown_operation_ignored:
  assumes "py_get op ''op'' = Some (JStr name)" and "name \<notin> set op_names"
  shows "process_operation_with_animation set_order op s = Some s
       \<and> process_op_group set_order op s = Some s
       \<and> process_op_group set_order (JList [op]) s = Some s"
proof -
  obtain kv where kv: "op = JDict kv" using assms(1) py_get_dict by blast
  have u: "map_of (op_map set_order) name = None"
    using assms(2) by (rule op_map_unknown)
  have 1: "process_operation_with_animation set_order op s = Some s"
    using assms(1) u
    by (simp add: process_operation_with_animation_def kv py_get_JDict py_get_default_def
                  apply_operation_silent_def)
  have 2: "process_op set_order op s = Some s"
    using 1 by (simp add: process_op_def kv)
  show ?thesis
    using 1 2 by (simp add: process_op_group_def kv)
qed

theorem unknown_operation_ignored_witness:
  "process_operation_with_animation id
      (JDict [(''op'', JStr ''rotateView''), (''params'', JDict [(''angle'', JInt 90)])])
      array_state = Some array_state
   \<and> process_op_group id
      (JDict [(''op'', JStr ''rotateView''), (''params'', JDict [(''angle'', JInt 90)])])
      array_state = Some array_state
   \<and> process_op_group id
      (JList [JDict [(''op'', JStr ''rotateView''), (''params'', JDict [(''angle'', JInt 90)])]])
      array_state = Some array_state"
  by (rule unknown_operation_ignored[where name = "''rotateView''"])
     (simp_all add: py_get_JDict op_names_def)

section \<open>Unsupported trace versions\<close>

lemma init_renderer_version:
  "init_renderer fast (JDict doc) =
     (case init_renderer fast (JDict (AList.update ''svl_version'' (JStr ''5.0'') doc)) of
        Inl e \<Rightarrow> Inl e
      | Inr ws \<Rightarrow> Inr (validate_version (dict_get doc ''svl_version'' JNull), snd ws))"
  by (simp add: init_renderer_def dict_get_def update_conv' Let_def
           split: option.splits json.splits sum.splits prod.splits)

text \<open>
  C5, as the code has it. A trace whose \<^verbatim>\<open>svl_version\<close> is not \<^verbatim>\<open>"5.0"\<close> is rejected
  with a message that names the version by the trace check of the tool maker. The renderer
  does not reject it: construction prints the warning and then goes on exactly as for the
  same trace with version \<^verbatim>\<open>"5.0"\<close>, to the same state or the same exception.
\<close>

theorem unsupported_version_warns:
  assumes "\<not> py_eq (dict_get doc ''svl_version'' JNull) (JStr ''5.0'')"
  shows "init_renderer fast (JDict doc) =
           (case init_renderer fast (JDict (AList.update ''svl_version'' (JStr ''5.0'') doc)) of
              Inl e \<Rightarrow> Inl e
            | Inr ws \<Rightarrow> Inr (True, snd ws))
       \<and> validate_trace (JDict doc) = Inl (InvalidVersion (dict_get doc ''svl_version'' JNull))"
proof -
  have "validate_version (dict_get doc ''svl_version'' JNull)"
    using assms by (simp add: validate_version_def)
  then have 1: "init_renderer fast (JDict doc) =
           (case init_renderer fast (JDict (AList.update ''svl_version'' (JStr ''5.0'') doc)) of
              Inl e \<Rightarrow> Inl e
            | Inr ws \<Rightarrow> Inr (True, snd ws))"
    using init_renderer_version[of fast doc] by (simp split: sum.splits)
  have 2: "validate_trace (JDict doc) = Inl (InvalidVersion (dict_get doc ''svl_version'' JNull))"
    using assms by (simp add: validate_trace_def)
  show ?thesis using 1 2 by simp
qed

lemma trace_doc_loads:
  "init_renderer False (JDict (trace_doc ''5.0'')) = Inr (False, trace_doc_state)"
  by (simp add: init_renderer_def trace_doc_def trace_doc_state_def dict_get_def
                validate_version_def Let_def adopt_dp_table_def normalise_table_def
                schema_variables_def py_iter_def
                py_in_list_def cell_def)

theorem unsupported_version_warns_witness:
  "init_renderer False (JDict (trace_doc ''4.0'')) = Inr (True, trace_doc_state)
   \<and> validate_trace (JDict (trace_doc ''4.0'')) = Inl (InvalidVersion (JStr ''4.0''))"
proof -
  have v: "\<not> py_eq (dict_get (trace_doc ''4.0'') ''svl_version'' JNull) (JStr ''5.0'')"
    by (simp add: trace_doc_def dict_get_def)
  have u: "AList.update ''svl_version'' (JStr ''5.0'') (trace_doc ''4.0'') = trace_doc ''5.0''"
    by (simp add: trace_doc_def)
  have d: "dict_get (trace_doc ''4.0'') ''svl_version'' JNull = JStr ''4.0''"
    by (simp add: trace_doc_def dict_get_def)
  show ?thesis
    using unsupported_version_warns[OF v, of False] by (simp add: u d trace_doc_loads)
qed

text \<open>
  C5 as stated fails: the renderer is constructed from a trace of version \<^verbatim>\<open>"4.0"\<close>, with
  the warning as the only trace of the version.
\<close>

theorem unsupported_version_counterexample:
  "init_renderer False (JDict (trace_doc ''4.0'')) = Inr (True, trace_doc_state)"
  by (simp add: init_renderer_def trace_doc_def trace_doc_state_def dict_get_def
                validate_version_def Let_def adopt_dp_table_def normalise_table_def
                schema_variables_def py_iter_def
                py_in_list_def cell_def)

section \<open>Graph edges after removeNode\<close>




section \<open>moveElements and shiftElements\<close>

lemma collect_single:
  assumes "py_get p ''fromIndex'' = Some (JInt a)" "py_get p ''toIndex'' = Some (JInt b)"
    "a \<noteq> b" "0 \<le> a" "a < int n" "0 \<le> b" "b < int n"
  shows "collect_valid_pairs n [p] [] = Some [(JInt a, JInt b)]"
  using assms by (simp add: in_range_def)

lemma swap_cells_single:
  assumes "a \<noteq> b" "0 \<le> a" "a < int (length arr)" "0 \<le> b" "b < int (length arr)"
    "arr ! nat a = JDict ca" "arr ! nat b = JDict cb"
  shows "swap_cells (JInt a, JInt b) arr = Some (reindexed arr a b cb ca)"
proof -
  have ne: "nat a \<noteq> nat b" using assms by auto
  have la: "nat a < length arr" and lb: "nat b < length arr" using assms by auto
  show ?thesis
    using assms ne la lb
    by (simp add: swap_cells_def reindexed_def py_setitem_def Let_def list_update_swap[of "nat b" "nat a"])
qed

lemma move_one:
  assumes "get_array_list_ref s = Some (Some (arr, key))"
    and "py_get_default params ''pairs'' (JList []) = Some (JList [p])"
    and "py_get p ''fromIndex'' = Some (JInt a)" and "py_get p ''toIndex'' = Some (JInt b)"
    and "a \<noteq> b" "0 \<le> a" "a < int (length arr)" "0 \<le> b" "b < int (length arr)"
    and "arr ! nat a = JDict ca" "arr ! nat b = JDict cb"
  shows "\<exists>s'. animate_move_elements set_order params s = Some s'
            \<and> get_array_list_ref s' = Some (Some (reindexed arr a b cb ca, key))"
proof -
  obtain kv where kv: "current_data_state s = JDict kv" and ty: "data_type s = JStr ''array''"
    using get_array_list_ref_dict[OF assms(1)] by blast
  obtain pkv where pkv: "params = JDict pkv"
    using assms(2) by (cases params) (auto simp: py_get_default_def)
  have ne: "arr \<noteq> []" using assms by auto
  obtain ds where ds: "py_setitem (current_data_state s) key (JList (reindexed arr a b cb ca)) = Some ds"
    using py_setitem_total[OF assms(1)] by blast
  have c: "collect_valid_pairs (length arr) [p] [] = Some [(JInt a, JInt b)]"
    using assms by (intro collect_single) auto
  have sw: "swap_cells (JInt a, JInt b) arr = Some (reindexed arr a b cb ca)"
    using assms by (intro swap_cells_single) auto
  obtain T K where r: "animate_move_elements set_order params s =
      Some (s\<lparr>current_data_state := ds, temp_elements := T, skip_smooth_transition := K\<rparr>)"
    using assms(1,2) ty ne c sw ds
    by (simp add: animate_move_elements_def py_iter_def pkv py_get_def py_get_default_def Let_def)
  have "get_array_list_ref (s\<lparr>current_data_state := ds, temp_elements := T, skip_smooth_transition := K\<rparr>)
          = Some (Some (reindexed arr a b cb ca, key))"
    by (rule get_array_list_ref_write[OF assms(1)]) (simp_all add: ds)
  with r show ?thesis by simp
qed


lemma collect_skip_later:
  assumes "(min x y, max x y) \<in> set und \<or> x = y \<or> \<not> (0 \<le> x \<and> x < int n \<and> 0 \<le> y \<and> y < int n)"
  shows "collect_valid_pairs n (mid @ pair_of y x # post) und = collect_valid_pairs n (mid @ post) und"
  using assms
proof (induction mid arbitrary: und)
  case Nil
  then show ?case
    by (auto simp: pair_of_def py_get_JDict in_range_def min.commute max.commute)
next
  case (Cons h mid)
  have step: "\<And>und'. set und \<subseteq> set und' \<Longrightarrow>
     collect_valid_pairs n (mid @ pair_of y x # post) und' = collect_valid_pairs n (mid @ post) und'"
    using Cons.prems by (intro Cons.IH) auto
  have same: "collect_valid_pairs n (mid @ pair_of y x # post) und = collect_valid_pairs n (mid @ post) und"
    by (rule step) simp
  have grown: "\<And>k. collect_valid_pairs n (mid @ pair_of y x # post) (k # und)
                 = collect_valid_pairs n (mid @ post) (k # und)"
    by (rule step) auto
  show ?case
    by (simp add: same grown split: Option.bind_splits if_splits)
qed

lemma pair_of_get:
  "py_get (pair_of x y) ''fromIndex'' = Some (JInt x)"
  "py_get (pair_of x y) ''toIndex'' = Some (JInt y)"
  by (simp_all add: pair_of_def py_get_JDict)

lemma collect_dedupe_from:
  "collect_valid_pairs n (pair_of x y # mid @ pair_of y x # post) und
     = collect_valid_pairs n (pair_of x y # mid @ post) und"
proof (cases "x = y \<or> \<not> (0 \<le> x \<and> x < int n \<and> 0 \<le> y \<and> y < int n)")
  case True
  then have "collect_valid_pairs n (mid @ pair_of y x # post) und
               = collect_valid_pairs n (mid @ post) und"
    by (intro collect_skip_later) blast
  then show ?thesis
    using True by (auto simp: pair_of_get in_range_def)
next
  case False
  show ?thesis
  proof (cases "(min x y, max x y) \<in> set und")
    case True
    then have "collect_valid_pairs n (mid @ pair_of y x # post) und
                 = collect_valid_pairs n (mid @ post) und"
      by (intro collect_skip_later) blast
    then show ?thesis
      using True by (auto simp: pair_of_get in_range_def)
  next
    case notin: False
    have "collect_valid_pairs n (mid @ pair_of y x # post) ((min x y, max x y) # und)
             = collect_valid_pairs n (mid @ post) ((min x y, max x y) # und)"
      by (rule collect_skip_later) simp
    then show ?thesis
      using False notin by (auto simp: pair_of_get in_range_def)
  qed
qed

lemma collect_dedupe:
  "collect_valid_pairs n (pre @ pair_of x y # mid @ pair_of y x # post) und
     = collect_valid_pairs n (pre @ pair_of x y # mid @ post) und"
proof (induction pre arbitrary: und)
  case Nil
  show ?case by (simp only: append_Nil collect_dedupe_from)
next
  case (Cons h pre)
  show ?case
    by (simp add: Cons.IH split: Option.bind_splits if_splits)
qed


lemma reindexed_twice:
  assumes "a \<noteq> b" "0 \<le> a" "a < int (length arr)" "0 \<le> b" "b < int (length arr)"
  shows "reindexed (reindexed arr a b cb ca) a b
           (AList.update ''index'' (JInt b) ca) (AList.update ''index'' (JInt a) cb)
         = reindexed arr a b ca cb"
proof -
  have ne: "nat a \<noteq> nat b" using assms by auto
  show ?thesis
    using ne by (simp add: reindexed_def list_update_swap[of "nat b" "nat a"])
qed

lemma reindexed_cells:
  assumes "a \<noteq> b" "0 \<le> a" "a < int (length arr)" "0 \<le> b" "b < int (length arr)"
  shows "length (reindexed arr a b x y) = length arr"
    and "reindexed arr a b x y ! nat a = JDict (AList.update ''index'' (JInt a) x)"
    and "reindexed arr a b x y ! nat b = JDict (AList.update ''index'' (JInt b) y)"
proof -
  have ne: "nat a \<noteq> nat b" and la: "nat a < length arr" and lb: "nat b < length arr"
    using assms by auto
  show "length (reindexed arr a b x y) = length arr" by (simp add: reindexed_def)
  show "reindexed arr a b x y ! nat a = JDict (AList.update ''index'' (JInt a) x)"
    using ne la by (simp add: reindexed_def)
  show "reindexed arr a b x y ! nat b = JDict (AList.update ''index'' (JInt b) y)"
    using lb by (simp add: reindexed_def)
qed

lemma move_twice:
  assumes "get_array_list_ref s = Some (Some (arr, key))"
    and "py_get_default params ''pairs'' (JList []) = Some (JList [p])"
    and "py_get p ''fromIndex'' = Some (JInt a)" and "py_get p ''toIndex'' = Some (JInt b)"
    and "a \<noteq> b" "0 \<le> a" "a < int (length arr)" "0 \<le> b" "b < int (length arr)"
    and "arr ! nat a = JDict ca" "arr ! nat b = JDict cb"
  shows "\<exists>s1 s2. animate_move_elements set_order params s = Some s1
            \<and> data_type s1 = JStr ''array''
            \<and> animate_move_elements set_order params s1 = Some s2
            \<and> get_array_list s2 = Some (reindexed arr a b ca cb)"
proof -
  let ?arr1 = "reindexed arr a b cb ca"
  obtain s1 where s1: "animate_move_elements set_order params s = Some s1"
      "get_array_list_ref s1 = Some (Some (?arr1, key))"
    using move_one[OF assms] by blast
  have "\<exists>s2. animate_move_elements set_order params s1 = Some s2
          \<and> get_array_list_ref s2 =
              Some (Some (reindexed ?arr1 a b (AList.update ''index'' (JInt b) ca)
                            (AList.update ''index'' (JInt a) cb), key))"
    using assms(2-9) by (intro move_one[OF s1(2)]) (simp_all add: reindexed_cells)
  then obtain s2 where s2: "animate_move_elements set_order params s1 = Some s2"
      "get_array_list_ref s2 = Some (Some (reindexed arr a b ca cb, key))"
    using reindexed_twice[OF assms(5-9)] by auto
  have "get_array_list s2 = Some (reindexed arr a b ca cb)"
    using s2(2) by (simp add: get_array_list_def)
  moreover have "data_type s1 = JStr ''array''"
    using get_array_list_ref_dict[OF s1(2)] by blast
  ultimately show ?thesis using s1(1) s2(1) by blast
qed

lemma shift_is_move:
  assumes "py_get_default params ''shifts'' (JList []) = Some (JList [p])"
    and "py_get p ''fromIndex'' = Some (JInt a)" and "py_get p ''toIndex'' = Some (JInt b)"
    and "data_type s = JStr ''array''"
  shows "\<exists>params'. py_get_default params' ''pairs'' (JList []) = Some (JList [pair_of a b])
           \<and> (\<forall>t. data_type t = JStr ''array'' \<longrightarrow>
                 animate_shift_elements set_order params t = animate_move_elements set_order params' t)"
proof -
  obtain kv where kv: "params = JDict kv"
    using assms(1) by (cases params) (auto simp: py_get_default_def)
  let ?p = "JDict (AList.update ''pairs'' (JList [pair_of a b]) kv)"
  have 1: "py_get_default ?p ''pairs'' (JList []) = Some (JList [pair_of a b])"
    by (simp add: py_get_default_def update_conv')
  have 2: "animate_shift_elements set_order params t = animate_move_elements set_order ?p t"
    if "data_type t = JStr ''array''" for t
    using assms(1-3) that
    by (simp add: animate_shift_elements_def kv py_iter_def shift_to_pair_def pair_of_def
                  py_setitem_def)
  show ?thesis using 1 2 by blast
qed

lemma reindexed_order:
  assumes "arr ! nat a = JDict ca" "arr ! nat b = JDict cb"
  shows "map without_index (reindexed arr a b ca cb) = map without_index arr"
proof -
  have "\<And>i kv v. arr ! i = JDict kv \<Longrightarrow>
          (map without_index arr)[i := without_index (JDict (AList.update ''index'' v kv))]
            = map without_index arr"
  proof -
    fix i kv v assume h: "arr ! i = JDict kv"
    show "(map without_index arr)[i := without_index (JDict (AList.update ''index'' v kv))]
            = map without_index arr"
    proof (cases "i < length arr")
      case True
      then have "without_index (JDict (AList.update ''index'' v kv)) = map without_index arr ! i"
        using h by (simp add: without_index_def delete_update_same)
      then show ?thesis by simp
    next
      case False
      then show ?thesis by (simp add: list_update_beyond)
    qed
  qed
  then show ?thesis
    using assms by (simp add: reindexed_def map_update)
qed

lemma reindexed_same:
  assumes "arr ! nat a = JDict ca" "arr ! nat b = JDict cb"
    and "map_of ca ''index'' = Some (JInt a)" "map_of cb ''index'' = Some (JInt b)"
  shows "reindexed arr a b ca cb = arr"
proof -
  have "arr[nat a := JDict ca] = arr"
    using assms(1) list_update_id[of arr "nat a"] by simp
  moreover have "arr[nat b := JDict cb] = arr"
    using assms(2) list_update_id[of arr "nat b"] by simp
  ultimately show ?thesis
    using assms(3,4) by (simp add: reindexed_def update_triv)
qed

lemma move_dedupe:
  "animate_move_elements set_order
     (JDict (AList.update ''pairs'' (JList (pre @ pair_of x y # mid @ pair_of y x # post)) kv)) t
   = animate_move_elements set_order
     (JDict (AList.update ''pairs'' (JList (pre @ pair_of x y # mid @ post)) kv)) t"
  by (simp add: animate_move_elements_def py_get_default_def py_get_def py_iter_def
                update_conv' collect_dedupe
           cong: if_cong option.case_cong Option.bind_cong)

text \<open>
  C7. A \<^verbatim>\<open>moveElements\<close> operation with one pair of distinct in-bounds indices whose
  cells are dicts, applied twice, gives back the array with the two cells in their old
  places; their \<^verbatim>\<open>index\<close> fields are set to their positions, so the array is the
  old one up to the \<^verbatim>\<open>index\<close> fields, and exactly the old one when the two cells
  carried their positions before. The same holds for \<^verbatim>\<open>shiftElements\<close> with one
  shift. Within one \<^verbatim>\<open>moveElements\<close> operation a pair \<open>(y, x)\<close> that follows a
  pair \<open>(x, y)\<close> is dropped: the operation does what it does without the later pair.
\<close>

theorem move_elements_self_inverse:
  assumes "get_array_list_ref s = Some (Some (arr, key))"
    and "a \<noteq> b" "0 \<le> a" "a < int (length arr)" "0 \<le> b" "b < int (length arr)"
    and "arr ! nat a = JDict ca" "arr ! nat b = JDict cb"
    and "py_get p ''fromIndex'' = Some (JInt a)" "py_get p ''toIndex'' = Some (JInt b)"
    and "py_get_default mparams ''pairs'' (JList []) = Some (JList [p])"
    and "py_get_default sparams ''shifts'' (JList []) = Some (JList [p])"
  shows "(\<exists>s1 s2. animate_move_elements set_order mparams s = Some s1
            \<and> animate_move_elements set_order mparams s1 = Some s2
            \<and> get_array_list s2 = Some (reindexed arr a b ca cb))
       \<and> (\<exists>s1 s2. animate_shift_elements set_order sparams s = Some s1
            \<and> animate_shift_elements set_order sparams s1 = Some s2
            \<and> get_array_list s2 = Some (reindexed arr a b ca cb))
       \<and> map without_index (reindexed arr a b ca cb) = map without_index arr
       \<and> (map_of ca ''index'' = Some (JInt a) \<and> map_of cb ''index'' = Some (JInt b)
            \<longrightarrow> reindexed arr a b ca cb = arr)
       \<and> animate_move_elements set_order
            (JDict (AList.update ''pairs'' (JList (pre @ pair_of x y # mid @ pair_of y x # post)) kv)) t
          = animate_move_elements set_order
            (JDict (AList.update ''pairs'' (JList (pre @ pair_of x y # mid @ post)) kv)) t"
proof -
  have ty: "data_type s = JStr ''array''"
    using get_array_list_ref_dict[OF assms(1)] by blast
  have mv: "\<exists>s1 s2. animate_move_elements set_order mparams s = Some s1
            \<and> animate_move_elements set_order mparams s1 = Some s2
            \<and> get_array_list s2 = Some (reindexed arr a b ca cb)"
    using move_twice[OF assms(1) assms(11) assms(9,10) assms(2-8)] by blast
  obtain params' where p': "py_get_default params' ''pairs'' (JList []) = Some (JList [pair_of a b])"
    and eq: "\<And>u. data_type u = JStr ''array'' \<Longrightarrow>
               animate_shift_elements set_order sparams u = animate_move_elements set_order params' u"
    using shift_is_move[OF assms(12) assms(9,10) ty] by blast
  obtain s1 s2 where r: "animate_move_elements set_order params' s = Some s1"
      "data_type s1 = JStr ''array''"
      "animate_move_elements set_order params' s1 = Some s2"
      "get_array_list s2 = Some (reindexed arr a b ca cb)"
    using move_twice[OF assms(1) p' pair_of_get assms(2-8)] by blast
  have sh: "\<exists>s1 s2. animate_shift_elements set_order sparams s = Some s1
            \<and> animate_shift_elements set_order sparams s1 = Some s2
            \<and> get_array_list s2 = Some (reindexed arr a b ca cb)"
    using r eq[OF ty] eq[OF r(2)] by auto
  have ord: "map without_index (reindexed arr a b ca cb) = map without_index arr"
    using assms(7,8) by (rule reindexed_order)
  have same: "map_of ca ''index'' = Some (JInt a) \<and> map_of cb ''index'' = Some (JInt b)
            \<longrightarrow> reindexed arr a b ca cb = arr"
    using assms(7,8) by (simp add: reindexed_same)
  show ?thesis
    using mv sh ord same move_dedupe by blast
qed

theorem move_elements_self_inverse_witness:
  "(\<exists>s1 s2. animate_move_elements id
               (JDict [(''pairs'', JList [pair_of 0 2]), (''animationKey'', JStr ''swap'')])
               array_state = Some s1
        \<and> animate_move_elements id
               (JDict [(''pairs'', JList [pair_of 0 2]), (''animationKey'', JStr ''swap'')])
               s1 = Some s2
        \<and> get_array_list s2 = get_array_list array_state)
   \<and> (\<exists>s1 s2. animate_shift_elements id (JDict [(''shifts'', JList [pair_of 0 2])]) array_state = Some s1
        \<and> animate_shift_elements id (JDict [(''shifts'', JList [pair_of 0 2])]) s1 = Some s2
        \<and> get_array_list s2 = get_array_list array_state)"
  using move_elements_self_inverse
          [where s = array_state and key = "''data''" and a = 0 and b = 2
             and arr = "[JDict (cell 0 ''x''), JDict (cell 1 ''y''), JDict (cell 2 ''z'')]"
             and ca = "cell 0 ''x''" and cb = "cell 2 ''z''" and p = "pair_of 0 2"
             and mparams = "JDict [(''pairs'', JList [pair_of 0 2]), (''animationKey'', JStr ''swap'')]"
             and sparams = "JDict [(''shifts'', JList [pair_of 0 2])]"
             and set_order = id and x = 0 and y = 0 and pre = "[]" and mid = "[]" and post = "[]"
             and kv = "[]" and t = array_state]
  by (simp add: array_state_def get_array_list_ref_def get_array_list_def py_get_def
                py_get_default_def pair_of_def cell_def reindexed_def)

section \<open>reparent without a new parent\<close>

lemma without_first_absent:
  "\<not> list_ex (\<lambda>y. py_eq y v) cs \<Longrightarrow> without_first v cs = cs"
  by (induction cs) (auto simp: without_first_def)

lemma py_list_remove_without_first:
  "list_ex (\<lambda>y. py_eq y v) cs \<Longrightarrow> py_list_remove v cs = Some (without_first v cs)"
  by (induction cs) (auto simp: without_first_def)

lemma without_first_gone:
  "occurrences v cs \<le> 1 \<Longrightarrow> \<not> list_ex (\<lambda>y. py_eq y v) (without_first v cs)"
proof (induction cs)
  case Nil
  then show ?case by (simp add: without_first_def)
next
  case (Cons c cs)
  show ?case
  proof (cases "py_eq c v")
    case True
    then have "filter (\<lambda>y. py_eq y v) cs = []"
      using Cons.prems by (auto simp: occurrences_def)
    then show ?thesis using True by (simp add: without_first_def list_ex_iff filter_empty_conv)
  next
    case False
    then have "occurrences v cs \<le> 1" using Cons.prems by (simp add: occurrences_def)
    then show ?thesis using Cons.IH False by (simp add: without_first_def)
  qed
qed

lemma detach_node_exact:
  assumes "node_ok n"
  shows "py_modify_default n ''children'' (JList []) (remove_from_children v)
           = Some (children_without v n)"
proof -
  obtain kv where kv: "n = JDict kv" using assms by (cases n) (auto simp: node_ok_def)
  show ?thesis
  proof (cases "map_of kv ''children''")
    case None
    then show ?thesis
      by (simp add: kv py_modify_default_def remove_from_children_def py_contains_def
                    py_in_list_def children_without_def)
  next
    case (Some c)
    then obtain cs where cs: "c = JList cs" using assms by (cases c) (auto simp: node_ok_def kv)
    show ?thesis
    proof (cases "list_ex (\<lambda>y. py_eq y v) cs")
      case True
      then show ?thesis
        using Some cs
        by (simp add: kv py_modify_default_def remove_from_children_def py_contains_def
                      py_in_list_def children_without_def py_list_remove_without_first)
    next
      case False
      then show ?thesis
        using Some cs
        by (simp add: kv py_modify_default_def remove_from_children_def py_contains_def
                      py_in_list_def children_without_def without_first_absent)
    qed
  qed
qed

lemma node_ok_children_without: "node_ok n \<Longrightarrow> node_ok (children_without v n)"
  by (cases n) (auto simp: node_ok_def children_without_def update_conv' split: option.splits json.splits)

lemma detach_child_exact:
  assumes "list_all node_ok ns"
  shows "(\<forall>j. first_with_id old ns j \<longrightarrow>
            detach_child old v ns = Some (ns[j := children_without v (ns ! j)]))
       \<and> (list_all (\<lambda>n. \<not> py_eq (node_id_of n) old) ns \<longrightarrow> detach_child old v ns = Some ns)"
proof -
  let ?f = "\<lambda>n. py_modify_default n ''children'' (JList []) (remove_from_children v)"
  have ok: "list_all (\<lambda>n. py_get n ''id'' \<noteq> None \<and> ?f n \<noteq> None) ns"
    using assms by (simp add: list_all_iff detach_node_exact node_ok_get_id)
  obtain ns' where r: "modify_first_node old ?f ns = Some ns'" "length ns' = length ns"
      "\<forall>i<length ns. ns' ! i = (if find_node old ns = Some (Some i) then the (?f (ns ! i)) else ns ! i)"
    using modify_first_node_spec[OF ok, of old] by blast
  have a: "detach_child old v ns = Some (ns[j := children_without v (ns ! j)])"
    if "first_with_id old ns j" for j
  proof -
    have f: "find_node old ns = Some (Some j)" using find_node_first[OF assms that] .
    have "ns' = ns[j := children_without v (ns ! j)]"
    proof (rule nth_equalityI)
      show "length ns' = length (ns[j := children_without v (ns ! j)])" using r(2) by simp
    next
      fix i assume "i < length ns'"
      then have i: "i < length ns" using r(2) by simp
      then have "node_ok (ns ! i)" using assms by (simp add: list_all_length)
      then show "ns' ! i = ns[j := children_without v (ns ! j)] ! i"
        using r(3) i f by (auto simp: detach_node_exact nth_list_update)
    qed
    then show ?thesis using r(1) by (simp add: detach_child_def)
  qed
  have b: "detach_child old v ns = Some ns"
    if "list_all (\<lambda>n. \<not> py_eq (node_id_of n) old) ns"
  proof -
    have f: "find_node old ns = Some None" using find_node_none[OF assms that] .
    have "ns' = ns"
      using r(2,3) f by (intro nth_equalityI) auto
    then show ?thesis using r(1) by (simp add: detach_child_def)
  qed
  show ?thesis using a b by blast
qed


lemma node_ok_parent: "node_ok n \<Longrightarrow> py_get n ''parent'' = Some (parent_of n)"
  by (cases n) (auto simp: node_ok_def parent_of_def py_get_def py_get_default_def)

lemma node_ok_with_parent: "node_ok n \<Longrightarrow> py_setitem n ''parent'' p = Some (with_parent p n)"
  by (cases n) (auto simp: node_ok_def with_parent_def py_setitem_def)

lemma reparent_struct_exact:
  assumes "map_of skv ''nodes'' = Some (JList nodes)" and "list_all node_ok nodes"
    and "truthy node_id" and "first_with_id node_id nodes t"
    and "(if truthy (parent_of (nodes ! t))
          then detach_child (parent_of (nodes ! t)) node_id nodes else Some nodes) = Some xs1"
    and "length xs1 = length nodes" and "list_all node_ok xs1"
  shows "reparent_struct node_id JNull index (JDict skv)
           = Some (JDict (AList.update ''root'' node_id
                            (AList.update ''nodes''
                               (JList (xs1[t := with_parent JNull (xs1 ! t)])) skv)))"
proof -
  have f: "find_node node_id nodes = Some (Some t)"
    using find_node_first[OF assms(2,4)] .
  have t: "t < length nodes" using assms(4) by (simp add: first_with_id_def)
  have tr: "truthy (nodes ! t)" using f assms(3) by (rule found_node_truthy)
  have tok: "node_ok (nodes ! t)" using assms(2) t by (simp add: list_all_length)
  have old: "py_get (nodes ! t) ''parent'' = Some (parent_of (nodes ! t))"
    using tok by (rule node_ok_parent)
  have ok1: "node_ok (xs1 ! t)" using assms(6,7) t by (simp add: list_all_length)
  have target: "py_setitem (xs1 ! t) ''parent'' JNull = Some (with_parent JNull (xs1 ! t))"
    using ok1 by (rule node_ok_with_parent)
  show ?thesis
    using assms(1) f tr old assms(5) target
    by (simp add: reparent_struct_def py_get_default_def py_iter_def py_setitem_def)
qed

lemma rooted_facts:
  "tree_root (rooted s dkv skv root nodes) = Some root"
  "tree_nodes (rooted s dkv skv root nodes) = Some nodes"
  by (simp_all add: rooted_def tree_root_def tree_nodes_def structure_list_def py_getitem_def
                    update_conv')

lemma with_parent_facts:
  assumes "node_ok n"
  shows "py_getitem (with_parent p n) ''parent'' = Some p"
    and "node_children (with_parent p n) = node_children n"
    and "node_id_of (with_parent p n) = node_id_of n"
  using assms
  by (cases n; auto simp: node_ok_def with_parent_def py_getitem_def node_children_def
        node_id_of_def py_get_def py_get_default_def update_conv')+

lemma children_without_children:
  assumes "node_ok n"
  shows "node_children (children_without v n) = without_first v (node_children n)"
proof -
  obtain kv where kv: "n = JDict kv" using assms by (cases n) (auto simp: node_ok_def)
  show ?thesis
  proof (cases "map_of kv ''children''")
    case None
    then show ?thesis
      by (simp add: kv children_without_def node_children_def py_getitem_def without_first_def)
  next
    case (Some c)
    then obtain cs where "c = JList cs" using assms by (cases c) (auto simp: node_ok_def kv)
    then show ?thesis
      using Some
      by (simp add: kv children_without_def node_children_def py_getitem_def update_conv')
  qed
qed

text \<open>
  C8, as the code has it. In a tree state whose nodes are dicts with list-valued
  \<^verbatim>\<open>children\<close>, take \<^verbatim>\<open>reparent\<close> with no \<^verbatim>\<open>new_parent_id\<close>. With a falsy
  \<^verbatim>\<open>node_id\<close>, or one that no node carries, the state stays as it is. Otherwise let
  \<open>t\<close> be the first node with the id. The operation makes the id the root and sets the
  \<^verbatim>\<open>parent\<close> of node \<open>t\<close> to \<^verbatim>\<open>None\<close>. If the old parent id of node \<open>t\<close> is truthy
  and \<open>j\<close> is the first node that carries it, the children of node \<open>j\<close> lose the first
  occurrence of the id (so they no longer hold it when they held it at most once). Nothing
  else changes: the resulting state is given in full.
\<close>

theorem reparent_to_root:
  assumes "data_type s = JStr ''tree''"
    and "current_data_state s = JDict dkv"
    and "map_of dkv ''structure'' = Some (JDict skv)"
    and "map_of skv ''nodes'' = Some (JList nodes)"
    and "list_all node_ok nodes"
    and "py_get params ''node_id'' = Some node_id"
    and "py_get params ''new_parent_id'' = Some JNull"
  shows "(\<not> truthy node_id \<longrightarrow> animate_reparent params s = Some s)
       \<and> (truthy node_id \<and> list_all (\<lambda>n. \<not> py_eq (node_id_of n) node_id) nodes
            \<longrightarrow> animate_reparent params s = Some s)
       \<and> (\<forall>t j. truthy node_id \<and> first_with_id node_id nodes t
                \<and> truthy (parent_of (nodes ! t))
                \<and> first_with_id (parent_of (nodes ! t)) nodes j \<longrightarrow>
            (\<exists>s' nodes1 nodes'.
               animate_reparent params s = Some s'
               \<and> nodes1 = nodes[j := children_without node_id (nodes ! j)]
               \<and> nodes' = nodes1[t := with_parent JNull (nodes1 ! t)]
               \<and> s' = rooted s dkv skv node_id nodes'
               \<and> tree_root s' = Some node_id
               \<and> tree_nodes s' = Some nodes'
               \<and> py_getitem (nodes' ! t) ''parent'' = Some JNull
               \<and> node_children (nodes' ! j) = without_first node_id (node_children (nodes ! j))
               \<and> (occurrences node_id (node_children (nodes ! j)) \<le> 1
                    \<longrightarrow> \<not> py_in_list node_id (node_children (nodes' ! j)))))
       \<and> (\<forall>t. truthy node_id \<and> first_with_id node_id nodes t
              \<and> (\<not> truthy (parent_of (nodes ! t))
                   \<or> list_all (\<lambda>n. \<not> py_eq (node_id_of n) (parent_of (nodes ! t))) nodes) \<longrightarrow>
            (\<exists>s' nodes'.
               animate_reparent params s = Some s'
               \<and> nodes' = nodes[t := with_parent JNull (nodes ! t)]
               \<and> s' = rooted s dkv skv node_id nodes'
               \<and> tree_root s' = Some node_id
               \<and> tree_nodes s' = Some nodes'
               \<and> py_getitem (nodes' ! t) ''parent'' = Some JNull))"
proof -
  obtain pkv where pkv: "params = JDict pkv"
    using assms(6) py_get_dict by blast
  let ?index = "case map_of pkv ''index'' of None \<Rightarrow> JNull | Some v \<Rightarrow> v"
  have falsy: "\<not> truthy node_id \<longrightarrow> animate_reparent params s = Some s"
    using assms(1,6,7) by (simp add: animate_reparent_def pkv py_get_JDict)
  have run: "animate_reparent params s = Some (rooted s dkv skv node_id nodes')"
    if "truthy node_id"
      and "reparent_struct node_id JNull ?index (JDict skv)
             = Some (JDict (AList.update ''root'' node_id
                              (AList.update ''nodes'' (JList nodes') skv)))"
    for nodes'
    using assms(1,2,3,6,7) that
    by (simp add: animate_reparent_def modify_structure_def py_modify_default_def pkv py_get_JDict
                  rooted_def)
  have unknown: "truthy node_id \<and> list_all (\<lambda>n. \<not> py_eq (node_id_of n) node_id) nodes
            \<longrightarrow> animate_reparent params s = Some s"
  proof
    assume h: "truthy node_id \<and> list_all (\<lambda>n. \<not> py_eq (node_id_of n) node_id) nodes"
    have "find_node node_id nodes = Some None"
      using find_node_none[OF assms(5)] h by blast
    then have "reparent_struct node_id JNull ?index (JDict skv) = Some (JDict skv)"
      using assms(4) by (simp add: reparent_struct_def py_get_default_def py_iter_def)
    moreover have "s\<lparr>current_data_state := JDict (AList.update ''structure'' (JDict skv) dkv)\<rparr> = s"
      using assms(2,3) by (simp add: update_triv)
    ultimately show "animate_reparent params s = Some s"
      using assms(1,2,3,6,7) h
      by (simp add: animate_reparent_def modify_structure_def py_modify_default_def pkv py_get_JDict)
  qed
  have moved: "\<forall>t j. truthy node_id \<and> first_with_id node_id nodes t
                \<and> truthy (parent_of (nodes ! t))
                \<and> first_with_id (parent_of (nodes ! t)) nodes j \<longrightarrow>
            (\<exists>s' nodes1 nodes'.
               animate_reparent params s = Some s'
               \<and> nodes1 = nodes[j := children_without node_id (nodes ! j)]
               \<and> nodes' = nodes1[t := with_parent JNull (nodes1 ! t)]
               \<and> s' = rooted s dkv skv node_id nodes'
               \<and> tree_root s' = Some node_id
               \<and> tree_nodes s' = Some nodes'
               \<and> py_getitem (nodes' ! t) ''parent'' = Some JNull
               \<and> node_children (nodes' ! j) = without_first node_id (node_children (nodes ! j))
               \<and> (occurrences node_id (node_children (nodes ! j)) \<le> 1
                    \<longrightarrow> \<not> py_in_list node_id (node_children (nodes' ! j))))"
  proof (intro allI impI)
    fix t j
    assume h: "truthy node_id \<and> first_with_id node_id nodes t
                \<and> truthy (parent_of (nodes ! t))
                \<and> first_with_id (parent_of (nodes ! t)) nodes j"
    let ?nodes1 = "nodes[j := children_without node_id (nodes ! j)]"
    let ?nodes' = "?nodes1[t := with_parent JNull (?nodes1 ! t)]"
    have t: "t < length nodes" and j: "j < length nodes"
      using h by (simp_all add: first_with_id_def)
    have jok: "node_ok (nodes ! j)" using assms(5) j by (simp add: list_all_length)
    have d: "detach_child (parent_of (nodes ! t)) node_id nodes = Some ?nodes1"
      using detach_child_exact[OF assms(5), of "parent_of (nodes ! t)" node_id] h by blast
    have ok1: "list_all node_ok ?nodes1"
    proof -
      have "node_ok (?nodes1 ! i)" if "i < length nodes" for i
        using that assms(5) jok node_ok_children_without[of "nodes ! j" node_id]
        by (cases "i = j") (simp_all add: list_all_length)
      then show ?thesis by (simp add: list_all_length)
    qed
    have "reparent_struct node_id JNull ?index (JDict skv)
           = Some (JDict (AList.update ''root'' node_id
                            (AList.update ''nodes'' (JList ?nodes') skv)))"
      using h d ok1 by (intro reparent_struct_exact[OF assms(4,5)]) simp_all
    then have r: "animate_reparent params s = Some (rooted s dkv skv node_id ?nodes')"
      using run h by blast
    have t1ok: "node_ok (?nodes1 ! t)" using ok1 t by (simp add: list_all_length)
    have par: "py_getitem (?nodes' ! t) ''parent'' = Some JNull"
      using t with_parent_facts(1)[OF t1ok] by simp
    have ch: "node_children (?nodes' ! j) = without_first node_id (node_children (nodes ! j))"
    proof (cases "j = t")
      case True
      then show ?thesis
        using t with_parent_facts(2)[OF t1ok] children_without_children[OF jok] by simp
    next
      case False
      then show ?thesis
        using j children_without_children[OF jok] by simp
    qed
    have gone: "occurrences node_id (node_children (nodes ! j)) \<le> 1
                    \<longrightarrow> \<not> py_in_list node_id (node_children (?nodes' ! j))"
      using ch without_first_gone[of node_id "node_children (nodes ! j)"]
      by (simp add: py_in_list_def)
    show "\<exists>s' nodes1 nodes'.
               animate_reparent params s = Some s'
               \<and> nodes1 = nodes[j := children_without node_id (nodes ! j)]
               \<and> nodes' = nodes1[t := with_parent JNull (nodes1 ! t)]
               \<and> s' = rooted s dkv skv node_id nodes'
               \<and> tree_root s' = Some node_id
               \<and> tree_nodes s' = Some nodes'
               \<and> py_getitem (nodes' ! t) ''parent'' = Some JNull
               \<and> node_children (nodes' ! j) = without_first node_id (node_children (nodes ! j))
               \<and> (occurrences node_id (node_children (nodes ! j)) \<le> 1
                    \<longrightarrow> \<not> py_in_list node_id (node_children (nodes' ! j)))"
      using r par ch gone rooted_facts[of s dkv skv node_id ?nodes'] by blast
  qed
  have kept: "\<forall>t. truthy node_id \<and> first_with_id node_id nodes t
              \<and> (\<not> truthy (parent_of (nodes ! t))
                   \<or> list_all (\<lambda>n. \<not> py_eq (node_id_of n) (parent_of (nodes ! t))) nodes) \<longrightarrow>
            (\<exists>s' nodes'.
               animate_reparent params s = Some s'
               \<and> nodes' = nodes[t := with_parent JNull (nodes ! t)]
               \<and> s' = rooted s dkv skv node_id nodes'
               \<and> tree_root s' = Some node_id
               \<and> tree_nodes s' = Some nodes'
               \<and> py_getitem (nodes' ! t) ''parent'' = Some JNull)"
  proof (intro allI impI)
    fix t
    assume h: "truthy node_id \<and> first_with_id node_id nodes t
              \<and> (\<not> truthy (parent_of (nodes ! t))
                   \<or> list_all (\<lambda>n. \<not> py_eq (node_id_of n) (parent_of (nodes ! t))) nodes)"
    let ?nodes' = "nodes[t := with_parent JNull (nodes ! t)]"
    have t: "t < length nodes" using h by (simp add: first_with_id_def)
    have tok: "node_ok (nodes ! t)" using assms(5) t by (simp add: list_all_length)
    have d: "(if truthy (parent_of (nodes ! t))
          then detach_child (parent_of (nodes ! t)) node_id nodes else Some nodes) = Some nodes"
      using detach_child_exact[OF assms(5), of "parent_of (nodes ! t)" node_id] h by auto
    have "reparent_struct node_id JNull ?index (JDict skv)
           = Some (JDict (AList.update ''root'' node_id
                            (AList.update ''nodes'' (JList ?nodes') skv)))"
      using h d by (intro reparent_struct_exact[OF assms(4,5)]) (simp_all add: assms(5))
    then have r: "animate_reparent params s = Some (rooted s dkv skv node_id ?nodes')"
      using run h by blast
    have par: "py_getitem (?nodes' ! t) ''parent'' = Some JNull"
      using t with_parent_facts(1)[OF tok] by simp
    show "\<exists>s' nodes'.
               animate_reparent params s = Some s'
               \<and> nodes' = nodes[t := with_parent JNull (nodes ! t)]
               \<and> s' = rooted s dkv skv node_id nodes'
               \<and> tree_root s' = Some node_id
               \<and> tree_nodes s' = Some nodes'
               \<and> py_getitem (nodes' ! t) ''parent'' = Some JNull"
      using r par rooted_facts[of s dkv skv node_id ?nodes'] by blast
  qed
  show ?thesis using falsy unknown moved kept by (intro conjI)
qed

theorem reparent_to_root_witness:
  "animate_reparent (JDict [(''node_id'', JStr ''a'')]) letter_tree
     = Some (tree_of (JStr ''a'')
               [JDict [(''id'', JStr ''r''), (''children'', JList [JStr ''b''])],
                JDict [(''id'', JStr ''a''), (''parent'', JNull), (''children'', JList [])],
                JDict [(''id'', JStr ''b''), (''parent'', JStr ''r'')]])
   \<and> animate_reparent (JDict [(''node_id'', JStr ''r'')]) letter_tree
     = Some (tree_of (JStr ''r'')
               [JDict [(''id'', JStr ''r''), (''children'', JList [JStr ''a'', JStr ''b'']),
                       (''parent'', JNull)],
                JDict [(''id'', JStr ''a''), (''parent'', JStr ''r''), (''children'', JList [])],
                JDict [(''id'', JStr ''b''), (''parent'', JStr ''r'')]])
   \<and> animate_reparent (JDict [(''node_id'', JStr ''zz'')]) letter_tree = Some letter_tree
   \<and> animate_reparent (JDict [(''node_id'', JStr [])]) letter_tree = Some letter_tree"
proof -
  let ?nodes = "[JDict [(''id'', JStr ''r''), (''children'', JList [JStr ''a'', JStr ''b''])],
        JDict [(''id'', JStr ''a''), (''parent'', JStr ''r''), (''children'', JList [])],
        JDict [(''id'', JStr ''b''), (''parent'', JStr ''r'')]]"
  let ?skv = "[(''root'', JStr ''r''), (''nodes'', JList ?nodes)]"
  let ?dkv = "[(''type'', JStr ''tree''), (''structure'', JDict ?skv)]"
  have h: "data_type letter_tree = JStr ''tree''" "current_data_state letter_tree = JDict ?dkv"
      "map_of ?dkv ''structure'' = Some (JDict ?skv)" "map_of ?skv ''nodes'' = Some (JList ?nodes)"
      "list_all node_ok ?nodes"
    by (simp_all add: letter_tree_def tree_of_def node_ok_def)
  have p: "py_get (JDict [(''node_id'', v)]) ''node_id'' = Some v"
      "py_get (JDict [(''node_id'', v)]) ''new_parent_id'' = Some JNull" for v
    by (simp_all add: py_get_JDict)
  note a = reparent_to_root[OF h p, of "JStr ''a''"]
  note r = reparent_to_root[OF h p, of "JStr ''r''"]
  note z = reparent_to_root[OF h p, of "JStr ''zz''"]
  note e = reparent_to_root[OF h p, of "JStr []"]
  have fa: "first_with_id (JStr ''a'') ?nodes 1" "truthy (parent_of (?nodes ! 1))"
      "first_with_id (parent_of (?nodes ! 1)) ?nodes 0"
    by (simp_all add: first_with_id_def node_id_of_def parent_of_def py_get_JDict)
  have fr: "first_with_id (JStr ''r'') ?nodes 0" "\<not> truthy (parent_of (?nodes ! 0))"
    by (simp_all add: first_with_id_def node_id_of_def parent_of_def py_get_JDict)
  have 1: "animate_reparent (JDict [(''node_id'', JStr ''a'')]) letter_tree
     = Some (tree_of (JStr ''a'')
               [JDict [(''id'', JStr ''r''), (''children'', JList [JStr ''b''])],
                JDict [(''id'', JStr ''a''), (''parent'', JNull), (''children'', JList [])],
                JDict [(''id'', JStr ''b''), (''parent'', JStr ''r'')]])"
    using a[THEN conjunct2, THEN conjunct2, THEN conjunct1, rule_format, of 1 0] fa
    by (simp add: rooted_def letter_tree_def tree_of_def children_without_def with_parent_def
                  without_first_def)
  have 2: "animate_reparent (JDict [(''node_id'', JStr ''r'')]) letter_tree
     = Some (tree_of (JStr ''r'')
               [JDict [(''id'', JStr ''r''), (''children'', JList [JStr ''a'', JStr ''b'']),
                       (''parent'', JNull)],
                JDict [(''id'', JStr ''a''), (''parent'', JStr ''r''), (''children'', JList [])],
                JDict [(''id'', JStr ''b''), (''parent'', JStr ''r'')]])"
    using r[THEN conjunct2, THEN conjunct2, THEN conjunct2, rule_format, of 0] fr
    by (simp add: rooted_def letter_tree_def tree_of_def with_parent_def)
  have 3: "animate_reparent (JDict [(''node_id'', JStr ''zz'')]) letter_tree = Some letter_tree"
    using z[THEN conjunct2, THEN conjunct1]
    by (simp add: node_id_of_def py_get_JDict)
  have 4: "animate_reparent (JDict [(''node_id'', JStr [])]) letter_tree = Some letter_tree"
    using e[THEN conjunct1] by simp
  show ?thesis using 1 2 3 4 by (intro conjI)
qed

text \<open>
  C8 as stated fails for a node whose id is falsy: in the tree \<^verbatim>\<open>1 -> 0\<close> the state has
  a node with id \<^verbatim>\<open>0\<close>, and \<^verbatim>\<open>reparent\<close> of that id returns at
  \<^verbatim>\<open>if not node_id\<close> with the state as it was, the root still \<^verbatim>\<open>1\<close>.
\<close>

theorem reparent_falsy_id_counterexample:
  "tree_nodes number_tree =
      Some [JDict [(''id'', JInt 1), (''children'', JList [JInt 0])],
            JDict [(''id'', JInt 0), (''parent'', JInt 1), (''children'', JList [])]]
   \<and> animate_reparent (JDict [(''node_id'', JInt 0)]) number_tree = Some number_tree
   \<and> tree_root number_tree = Some (JInt 1)"
  by (simp add: number_tree_def tree_of_def tree_nodes_def structure_list_def tree_root_def py_getitem_def
                animate_reparent_def py_get_JDict)

section \<open>popFromList\<close>

lemma pop_index_position:
  "names_position index (length lst) k \<Longrightarrow> pop_index index lst = Some k"
  by (auto simp: names_position_def pop_index_def)

lemma pop_index_none:
  "\<forall>k. \<not> names_position index (length lst) k \<Longrightarrow> pop_index index lst = None"
proof (cases index)
  case (JInt j)
  assume a: "\<forall>k. \<not> names_position index (length lst) k"
  show ?thesis
  proof (cases "0 \<le> j \<and> j < int (length lst)")
    case True
    then have "names_position index (length lst) (nat j)"
      by (auto simp: names_position_def JInt nat_less_iff)
    then show ?thesis using a by blast
  next
    case False
    then show ?thesis by (auto simp: pop_index_def JInt)
  qed
next
  case (JBool b)
  assume a: "\<forall>k. \<not> names_position index (length lst) k"
  then have "\<not> names_position index (length lst) (if b then 1 else 0)" by blast
  then show ?thesis by (auto simp: pop_index_def JBool names_position_def)
qed (simp_all add: pop_index_def)

lemma pop_from_popped: "popped val index wh lst (pop_from val index wh lst)"
proof -
  let ?l = "pop_from val index wh lst"
  have absent: "val \<noteq> JNull \<and> \<not> list_ex (\<lambda>y. py_eq y val) lst \<longrightarrow> ?l = lst"
    by (simp add: pop_from_def py_list_remove_absent)
  have present: "val \<noteq> JNull \<and> list_ex (\<lambda>y. py_eq y val) lst \<longrightarrow>
              (\<exists>pre x post. lst = pre @ x # post \<and> \<not> list_ex (\<lambda>y. py_eq y val) pre
                 \<and> py_eq x val \<and> ?l = pre @ post)"
  proof
    assume a: "val \<noteq> JNull \<and> list_ex (\<lambda>y. py_eq y val) lst"
    then obtain pre x post where s: "lst = pre @ x # post"
        "\<not> list_ex (\<lambda>y. py_eq y val) pre" "py_eq x val"
      using list_ex_first[of "\<lambda>y. py_eq y val" lst] by blast
    then have "?l = pre @ post"
      using a by (simp add: pop_from_def py_list_remove_first)
    with s show "\<exists>pre x post. lst = pre @ x # post \<and> \<not> list_ex (\<lambda>y. py_eq y val) pre
                 \<and> py_eq x val \<and> ?l = pre @ post" by blast
  qed
  have byidx: "\<forall>k. val = JNull \<and> names_position index (length lst) k \<longrightarrow>
              ?l = take k lst @ drop (Suc k) lst"
    by (auto simp: pop_from_def dest: pop_index_position)
  have hd: "val = JNull \<and> (\<forall>k. \<not> names_position index (length lst) k) \<and> wh = JStr ''head''
              \<longrightarrow> ?l = tl lst"
    by (auto simp: pop_from_def pop_index_none)
  have tl: "val = JNull \<and> (\<forall>k. \<not> names_position index (length lst) k) \<and> wh = JStr ''tail''
              \<longrightarrow> ?l = butlast lst"
    by (auto simp: pop_from_def pop_index_none)
  have other: "val = JNull \<and> (\<forall>k. \<not> names_position index (length lst) k)
              \<and> wh \<noteq> JStr ''head'' \<and> wh \<noteq> JStr ''tail'' \<longrightarrow> ?l = lst"
  proof
    assume a: "val = JNull \<and> (\<forall>k. \<not> names_position index (length lst) k)
              \<and> wh \<noteq> JStr ''head'' \<and> wh \<noteq> JStr ''tail''"
    then have "pop_index index lst = None" using pop_index_none by blast
    then show "?l = lst" using a by (cases wh) (auto simp: pop_from_def)
  qed
  show ?thesis
    unfolding popped_def using absent present byidx hd tl other by blast
qed

lemma pop_from_view_keyed:
  "map_of vkv ''data'' = Some (JDict dkv) \<Longrightarrow> map_of dkv k = Some (JList lst) \<Longrightarrow>
   pop_from_view (JStr k) val index wh (JDict vkv)
     = Some (JDict (AList.update ''data''
                      (JDict (AList.update k (JList (pop_from val index wh lst)) dkv)) vkv))"
  by (simp add: pop_from_view_def py_get_JDict py_setitem_JDict)

lemma pop_from_view_skip:
  "map_of vkv ''data'' = Some d \<Longrightarrow>
   (\<forall>l. d \<noteq> JList l) \<and> (\<forall>kv. d \<noteq> JDict kv)
   \<or> (\<exists>dkv. d = JDict dkv \<and> (list_key = JNull \<or> (\<exists>k. list_key = JStr k \<and> map_of dkv k = None))) \<Longrightarrow>
   pop_from_view list_key val index wh (JDict vkv) = Some (JDict vkv)"
  by (cases d) (auto simp: pop_from_view_def py_get_JDict)

text \<open>
  C9. Let the first view with the given \<^verbatim>\<open>view_id\<close> be a dict with an entry
  \<^verbatim>\<open>data\<close>. If the data is a list, or a dict that holds a list under the string
  \<^verbatim>\<open>list_key\<close>, then \<^verbatim>\<open>popFromList\<close> never raises and replaces that list as follows,
  and nothing else. With an explicit value it removes exactly the first element equal to
  the value, and changes nothing when there is none, whatever \<^verbatim>\<open>index\<close> and
  \<^verbatim>\<open>from\<close> say. Without a value, an integer index within the list removes the element
  at that index, whatever \<^verbatim>\<open>from\<close> says. Without a value and without such an index,
  \<^verbatim>\<open>head\<close> removes the first element, and otherwise \<^verbatim>\<open>tail\<close> the last one. If the
  data is neither, or a dict without the key, the state stays as it is.
\<close>

theorem pop_from_list_modes:
  assumes "py_get params ''view_id'' = Some view_id"
    and "py_get params ''value'' = Some val"
    and "py_get params ''index'' = Some index"
    and "py_get params ''from'' = Some wh"
    and "py_get params ''list_key'' = Some list_key"
    and "i < length (current_aux_views s)"
    and "view_id_absent (take i (current_aux_views s)) view_id"
    and "current_aux_views s ! i = JDict vkv"
    and "py_eq (dict_get vkv ''view_id'' JNull) view_id"
    and "map_of vkv ''data'' = Some d"
  shows "(\<forall>lst. d = JList lst \<longrightarrow>
            (\<exists>lst'. animate_pop_from_list params s =
                       Some (s\<lparr>current_aux_views := (current_aux_views s)
                              [i := JDict (AList.update ''data'' (JList lst') vkv)]\<rparr>)
                   \<and> popped val index wh lst lst'))
       \<and> (\<forall>dkv k lst. d = JDict dkv \<and> list_key = JStr k \<and> map_of dkv k = Some (JList lst) \<longrightarrow>
            (\<exists>lst'. animate_pop_from_list params s =
                       Some (s\<lparr>current_aux_views := (current_aux_views s)
                              [i := JDict (AList.update ''data''
                                             (JDict (AList.update k (JList lst') dkv)) vkv)]\<rparr>)
                   \<and> popped val index wh lst lst'))
       \<and> ((\<forall>l. d \<noteq> JList l) \<and> (\<forall>kv. d \<noteq> JDict kv)
            \<or> (\<exists>dkv. d = JDict dkv
                  \<and> (list_key = JNull \<or> (\<exists>k. list_key = JStr k \<and> map_of dkv k = None)))
           \<longrightarrow> animate_pop_from_list params s = Some s)"
proof -
  obtain kv where kv: "params = JDict kv"
    using assms(1) py_get_dict by blast
  have ne: "vkv \<noteq> []" using assms(10) by auto
  have vid: "py_get (current_aux_views s ! i) ''view_id'' = Some (dict_get vkv ''view_id'' JNull)"
    by (simp add: assms(8) py_get_JDict dict_get_def)
  have found: "find_aux_view_by_id (current_aux_views s) view_id = Some (Some i)"
    using find_aux_view_first[OF assms(6,7) vid assms(9)] .
  have run: "animate_pop_from_list params s =
               (case pop_from_view list_key val index wh (JDict vkv) of
                  None \<Rightarrow> None
                | Some view \<Rightarrow> Some (s\<lparr>current_aux_views := (current_aux_views s)[i := view]\<rparr>))"
    using assms(1-5,8) found ne unfolding animate_pop_from_list_def kv
    by (simp add: py_get_JDict split: option.splits)
  have same: "s\<lparr>current_aux_views := (current_aux_views s)[i := JDict vkv]\<rparr> = s"
    using assms(8) list_update_id[of "current_aux_views s" i] by simp
  have a: "\<forall>lst. d = JList lst \<longrightarrow>
            (\<exists>lst'. animate_pop_from_list params s =
                       Some (s\<lparr>current_aux_views := (current_aux_views s)
                              [i := JDict (AList.update ''data'' (JList lst') vkv)]\<rparr>)
                   \<and> popped val index wh lst lst')"
  proof (intro allI impI)
    fix lst assume "d = JList lst"
    then have "animate_pop_from_list params s =
                 Some (s\<lparr>current_aux_views := (current_aux_views s)
                        [i := JDict (AList.update ''data'' (JList (pop_from val index wh lst)) vkv)]\<rparr>)"
      using run assms(10) by (simp add: pop_from_view_list)
    then show "\<exists>lst'. animate_pop_from_list params s =
                       Some (s\<lparr>current_aux_views := (current_aux_views s)
                              [i := JDict (AList.update ''data'' (JList lst') vkv)]\<rparr>)
                   \<and> popped val index wh lst lst'"
      using pop_from_popped by blast
  qed
  have b: "\<forall>dkv k lst. d = JDict dkv \<and> list_key = JStr k \<and> map_of dkv k = Some (JList lst) \<longrightarrow>
            (\<exists>lst'. animate_pop_from_list params s =
                       Some (s\<lparr>current_aux_views := (current_aux_views s)
                              [i := JDict (AList.update ''data''
                                             (JDict (AList.update k (JList lst') dkv)) vkv)]\<rparr>)
                   \<and> popped val index wh lst lst')"
  proof (intro allI impI)
    fix dkv k lst
    assume h: "d = JDict dkv \<and> list_key = JStr k \<and> map_of dkv k = Some (JList lst)"
    then have "animate_pop_from_list params s =
                 Some (s\<lparr>current_aux_views := (current_aux_views s)
                        [i := JDict (AList.update ''data''
                                       (JDict (AList.update k (JList (pop_from val index wh lst)) dkv))
                                       vkv)]\<rparr>)"
      using run assms(10) by (simp add: pop_from_view_keyed)
    then show "\<exists>lst'. animate_pop_from_list params s =
                       Some (s\<lparr>current_aux_views := (current_aux_views s)
                              [i := JDict (AList.update ''data''
                                             (JDict (AList.update k (JList lst') dkv)) vkv)]\<rparr>)
                   \<and> popped val index wh lst lst'"
      using pop_from_popped by blast
  qed
  have c: "(\<forall>l. d \<noteq> JList l) \<and> (\<forall>kv. d \<noteq> JDict kv)
            \<or> (\<exists>dkv. d = JDict dkv
                  \<and> (list_key = JNull \<or> (\<exists>k. list_key = JStr k \<and> map_of dkv k = None)))
           \<longrightarrow> animate_pop_from_list params s = Some s"
  proof
    assume h: "(\<forall>l. d \<noteq> JList l) \<and> (\<forall>kv. d \<noteq> JDict kv)
            \<or> (\<exists>dkv. d = JDict dkv
                  \<and> (list_key = JNull \<or> (\<exists>k. list_key = JStr k \<and> map_of dkv k = None)))"
    have "pop_from_view list_key val index wh (JDict vkv) = Some (JDict vkv)"
      using pop_from_view_skip[OF assms(10) h] .
    then show "animate_pop_from_list params s = Some s"
      using run same by simp
  qed
  show ?thesis using a b c by (intro conjI)
qed


theorem pop_from_list_modes_witness:
  "(\<exists>lst'. animate_pop_from_list
              (JDict [(''view_id'', JStr ''queue''), (''value'', JInt 3), (''index'', JInt 1),
                      (''from'', JStr ''tail'')])
              list_state
            = Some (list_state\<lparr>current_aux_views :=
                      [JDict [(''view_id'', JStr ''queue''), (''type'', JStr ''list''),
                              (''data'', JList lst')]]\<rparr>)
          \<and> (\<exists>pre x post. [JInt 3, JInt 5, JInt 3] = pre @ x # post
                 \<and> \<not> list_ex (\<lambda>y. py_eq y (JInt 3)) pre \<and> py_eq x (JInt 3) \<and> lst' = pre @ post))
   \<and> animate_pop_from_list
        (JDict [(''view_id'', JStr ''queue''), (''index'', JInt 1), (''from'', JStr ''head'')])
        list_state
      = Some (list_state\<lparr>current_aux_views :=
                [JDict [(''view_id'', JStr ''queue''), (''type'', JStr ''list''),
                        (''data'', JList [JInt 3, JInt 3])]]\<rparr>)
   \<and> animate_pop_from_list
        (JDict [(''view_id'', JStr ''queue''), (''index'', JInt 3), (''from'', JStr ''head'')])
        list_state
      = Some (list_state\<lparr>current_aux_views :=
                [JDict [(''view_id'', JStr ''queue''), (''type'', JStr ''list''),
                        (''data'', JList [JInt 5, JInt 3])]]\<rparr>)
   \<and> animate_pop_from_list
        (JDict [(''view_id'', JStr ''sets''), (''list_key'', JStr ''open''),
                (''from'', JStr ''tail'')])
        keyed_list_state
      = Some (keyed_list_state\<lparr>current_aux_views :=
                [JDict [(''view_id'', JStr ''sets''), (''type'', JStr ''list''),
                        (''data'', JDict [(''open'', JList [JInt 1]),
                                          (''closed'', JList [JInt 7])])]]\<rparr>)
   \<and> animate_pop_from_list
        (JDict [(''view_id'', JStr ''sets''), (''list_key'', JStr ''done''),
                (''from'', JStr ''tail'')])
        keyed_list_state
      = Some keyed_list_state"
proof -
  let ?q = "[(''view_id'', JStr ''queue''), (''type'', JStr ''list''),
             (''data'', JList [JInt 3, JInt 5, JInt 3])]"
  let ?k = "[(''view_id'', JStr ''sets''), (''type'', JStr ''list''),
             (''data'', JDict [(''open'', JList [JInt 1, JInt 2]), (''closed'', JList [JInt 7])])]"
  have v: "\<exists>lst'. animate_pop_from_list
              (JDict [(''view_id'', JStr ''queue''), (''value'', JInt 3), (''index'', JInt 1),
                      (''from'', JStr ''tail'')])
              list_state
            = Some (list_state\<lparr>current_aux_views :=
                      [JDict [(''view_id'', JStr ''queue''), (''type'', JStr ''list''),
                              (''data'', JList lst')]]\<rparr>)
          \<and> (\<exists>pre x post. [JInt 3, JInt 5, JInt 3] = pre @ x # post
                 \<and> \<not> list_ex (\<lambda>y. py_eq y (JInt 3)) pre \<and> py_eq x (JInt 3) \<and> lst' = pre @ post)"
    using pop_from_list_modes
            [where params = "JDict [(''view_id'', JStr ''queue''), (''value'', JInt 3),
                                    (''index'', JInt 1), (''from'', JStr ''tail'')]"
               and view_id = "JStr ''queue''" and val = "JInt 3" and index = "JInt 1"
               and wh = "JStr ''tail''" and list_key = JNull and s = list_state and i = 0
               and vkv = ?q and d = "JList [JInt 3, JInt 5, JInt 3]"]
    by (simp add: py_get_JDict list_state_def view_id_absent_def dict_get_def popped_def)
  have i1: "names_position (JInt 1) n k \<longleftrightarrow> k = 1 \<and> 1 < n" for n k
    by (auto simp: names_position_def)
  have i3: "names_position (JInt 3) n k \<longleftrightarrow> k = 3 \<and> 3 < n" for n k
    by (auto simp: names_position_def)
  have nn: "\<not> names_position JNull n k" for n k
    by (simp add: names_position_def)
  have x: "animate_pop_from_list
        (JDict [(''view_id'', JStr ''queue''), (''index'', JInt 1), (''from'', JStr ''head'')])
        list_state
      = Some (list_state\<lparr>current_aux_views :=
                [JDict [(''view_id'', JStr ''queue''), (''type'', JStr ''list''),
                        (''data'', JList [JInt 3, JInt 3])]]\<rparr>)"
    using pop_from_list_modes
            [where params = "JDict [(''view_id'', JStr ''queue''), (''index'', JInt 1),
                                    (''from'', JStr ''head'')]"
               and view_id = "JStr ''queue''" and val = JNull and index = "JInt 1"
               and wh = "JStr ''head''" and list_key = JNull and s = list_state and i = 0
               and vkv = ?q and d = "JList [JInt 3, JInt 5, JInt 3]"]
    by (simp add: py_get_JDict list_state_def view_id_absent_def dict_get_def popped_def i1)
  have h: "animate_pop_from_list
        (JDict [(''view_id'', JStr ''queue''), (''index'', JInt 3), (''from'', JStr ''head'')])
        list_state
      = Some (list_state\<lparr>current_aux_views :=
                [JDict [(''view_id'', JStr ''queue''), (''type'', JStr ''list''),
                        (''data'', JList [JInt 5, JInt 3])]]\<rparr>)"
    using pop_from_list_modes
            [where params = "JDict [(''view_id'', JStr ''queue''), (''index'', JInt 3),
                                    (''from'', JStr ''head'')]"
               and view_id = "JStr ''queue''" and val = JNull and index = "JInt 3"
               and wh = "JStr ''head''" and list_key = JNull and s = list_state and i = 0
               and vkv = ?q and d = "JList [JInt 3, JInt 5, JInt 3]"]
    by (simp add: py_get_JDict list_state_def view_id_absent_def dict_get_def popped_def i3)
  have t: "animate_pop_from_list
        (JDict [(''view_id'', JStr ''sets''), (''list_key'', JStr ''open''),
                (''from'', JStr ''tail'')])
        keyed_list_state
      = Some (keyed_list_state\<lparr>current_aux_views :=
                [JDict [(''view_id'', JStr ''sets''), (''type'', JStr ''list''),
                        (''data'', JDict [(''open'', JList [JInt 1]),
                                          (''closed'', JList [JInt 7])])]]\<rparr>)"
    using pop_from_list_modes
            [where params = "JDict [(''view_id'', JStr ''sets''), (''list_key'', JStr ''open''),
                                    (''from'', JStr ''tail'')]"
               and view_id = "JStr ''sets''" and val = JNull and index = JNull
               and wh = "JStr ''tail''" and list_key = "JStr ''open''" and s = keyed_list_state
               and i = 0 and vkv = ?k
               and d = "JDict [(''open'', JList [JInt 1, JInt 2]), (''closed'', JList [JInt 7])]"]
    by (simp add: py_get_JDict keyed_list_state_def list_state_def view_id_absent_def dict_get_def
                  popped_def nn)
  have n: "animate_pop_from_list
        (JDict [(''view_id'', JStr ''sets''), (''list_key'', JStr ''done''),
                (''from'', JStr ''tail'')])
        keyed_list_state
      = Some keyed_list_state"
    using pop_from_list_modes
            [where params = "JDict [(''view_id'', JStr ''sets''), (''list_key'', JStr ''done''),
                                    (''from'', JStr ''tail'')]"
               and view_id = "JStr ''sets''" and val = JNull and index = JNull
               and wh = "JStr ''tail''" and list_key = "JStr ''done''" and s = keyed_list_state
               and i = 0 and vkv = ?k
               and d = "JDict [(''open'', JList [JInt 1, JInt 2]), (''closed'', JList [JInt 7])]"]
    by (simp add: py_get_JDict keyed_list_state_def list_state_def view_id_absent_def dict_get_def)
  show ?thesis using v x h t n by (intro conjI)
qed

section \<open>appendToList on an unknown view\<close>

text \<open>
  C10. When no auxiliary view carries the \<^verbatim>\<open>view_id\<close> of the operation,
  \<^verbatim>\<open>appendToList\<close> does not ignore it: it appends a new view of type \<^verbatim>\<open>list\<close> with
  that \<^verbatim>\<open>view_id\<close> whose data list holds the value, while \<^verbatim>\<open>popFromList\<close> and
  \<^verbatim>\<open>clearList\<close> with the same parameters leave the state as it is.
\<close>

theorem append_to_list_unknown_view:
  assumes "py_get params ''view_id'' = Some view_id"
    and "py_get params ''value'' = Some val"
    and "view_id_absent (current_aux_views s) view_id"
  shows "animate_append_to_list params s =
           Some (s\<lparr>current_aux_views := current_aux_views s @ [new_list_view view_id val]\<rparr>)
         \<and> animate_pop_from_list params s = Some s
         \<and> animate_clear_list params s = Some s"
proof -
  obtain kv where kv: "params = JDict kv"
    using assms(1) py_get_dict by blast
  have absent: "find_aux_view_by_id (current_aux_views s) view_id = Some None"
    using assms(3) by (rule find_aux_view_absent)
  have fresh: "append_to_view lk val
                 (JDict [(''view_id'', view_id), (''type'', JStr ''list''),
                         (''title'', view_id), (''data'', JList [])])
               = Some (new_list_view view_id val)" for lk
    by (simp add: append_to_view_def new_list_view_def py_get_JDict py_setitem_def)
  have app: "animate_append_to_list params s =
           Some (s\<lparr>current_aux_views := current_aux_views s @ [new_list_view view_id val]\<rparr>)"
    using assms(1,2) absent fresh unfolding animate_append_to_list_def kv
    by (simp add: py_get_JDict)
  have pop: "animate_pop_from_list params s = Some s"
    using assms(1,2) absent unfolding animate_pop_from_list_def kv
    by (simp add: py_get_JDict)
  have clr: "animate_clear_list params s = Some s"
    using assms(1,2) absent unfolding animate_clear_list_def kv
    by (simp add: py_get_JDict)
  show ?thesis using app pop clr by simp
qed

theorem append_to_list_unknown_view_witness:
  "animate_append_to_list (JDict [(''view_id'', JStr ''stack''), (''value'', JInt 7)]) list_state
     = Some (list_state\<lparr>current_aux_views :=
               current_aux_views list_state @ [new_list_view (JStr ''stack'') (JInt 7)]\<rparr>)
   \<and> animate_pop_from_list (JDict [(''view_id'', JStr ''stack''), (''value'', JInt 7)]) list_state
     = Some list_state
   \<and> animate_clear_list (JDict [(''view_id'', JStr ''stack''), (''value'', JInt 7)]) list_state
     = Some list_state"
  using append_to_list_unknown_view
          [of "JDict [(''view_id'', JStr ''stack''), (''value'', JInt 7)]"
              "JStr ''stack''" "JInt 7" list_state]
  by (simp add: py_get_JDict view_id_absent_def list_state_def)

end
